theory Spec2Isabelle
  imports Complex_Main "HOL-Library.AList"
begin

section \<open>Values shared by the modules\<close>

text \<open>
  The dashboard is a single-threaded JavaScript program. Each class is a record, each
  method a function that takes the object's state and returns the updated state, and
  each exception a value.

  What the model leaves out, throughout: the calls to \<^verbatim>\<open>logger\<close> and
  \<^verbatim>\<open>console\<close> (a sink that is written and never read), and the calls into the
  widgets and the event handler's notices (they are assumed not to throw and they
  change no field modelled here).

  An ordinary JavaScript \<^verbatim>\<open>Error\<close>, as thrown by the OS layer
  (\<^verbatim>\<open>systeminformation\<close>) or by the runtime: its name, message and stack,
  its optional \<^verbatim>\<open>code\<close>, and whether it is an instance of
  \<^verbatim>\<open>SyntaxError\<close>.
\<close>

record js_error =
  err_name :: string
  err_message :: string
  err_code :: "string option"
  err_stack :: string
  err_isSyntaxError :: bool

text \<open>Object literals stored in the \<^verbatim>\<open>details\<close> of an error.\<close>

datatype jsval =
    JUndefined
  | JStr string
  | JNum int
  | JErr js_error
  | JObj "(string \<times> jsval) list"

text \<open>
  A settled promise: rejected with a reason (\<open>Inl\<close>) or fulfilled with a value
  (\<open>Inr\<close>). An \<^verbatim>\<open>await\<close> on a rejected promise throws the reason.
\<close>

type_synonym 'a promise = "js_error + 'a"

text \<open>
  What the host supplies when an error object is built:
  \<^verbatim>\<open>new Date().toISOString()\<close> and the captured stack trace.
\<close>

record host =
  isoNow :: string
  stackTrace :: string

text \<open>
  JavaScript numbers that carry measurements are modelled as reals (no rounding error,
  and a division by zero is \<open>0\<close> here where JavaScript has \<^verbatim>\<open>NaN\<close> or an
  infinity); no theorem below depends on a quotient whose divisor is zero.
  \<^verbatim>\<open>Math.round\<close> rounds to the nearest integer, halves upwards.
\<close>

definition Math_round :: "real \<Rightarrow> int" where
  "Math_round x = \<lfloor>x + 1 / 2\<rfloor>"

text \<open>\<^verbatim>\<open>Math.round(x * 100) / 100\<close>\<close>

definition round2 :: "real \<Rightarrow> real" where
  "round2 x = real_of_int (Math_round (x * 100)) / 100"

section \<open>lib/system-info.js: the readings and the cache\<close>

text \<open>The answers of the OS layer.\<close>

record raw_core =
  core_load :: real

record raw_load =
  currentLoad :: real
  cpus :: "raw_core list"

record raw_cpu =
  cpu_model :: string
  cpu_speed :: real

record raw_mem =
  mem_total :: real
  mem_used :: real
  mem_free :: real

record raw_fs =
  fs_fs :: string
  fs_size :: real
  fs_used :: real
  fs_available :: real
  fs_use :: real
  fs_mount :: string

record raw_net =
  net_iface :: string
  rx_bytes :: real
  tx_bytes :: real
  rx_sec :: real
  tx_sec :: real

text \<open>The readings the collectors build from them.\<close>

record core_usage =
  core :: nat
  load :: real

record cpu_reading =
  usage :: real
  cores :: nat
  model :: string
  speed :: real
  coreUsage :: "core_usage list"

record memory_reading =
  total :: real
  used :: real
  free :: real
  usagePercent :: real

record disk_reading =
  filesystem :: string
  disk_size :: real
  disk_used :: real
  disk_available :: real
  disk_usagePercent :: real
  mount :: string

record network_reading =
  interface :: string
  rxMB :: real
  txMB :: real
  rxRate :: real
  txRate :: real

text \<open>
  The cache is one \<^verbatim>\<open>Map\<close> for all four sources, so its values are of any
  of the four shapes.
\<close>

datatype reading =
    CpuData cpu_reading
  | MemoryData memory_reading
  | DiskData "disk_reading list"
  | NetworkData "network_reading list"

record cache_entry =
  data :: reading
  timestamp :: int

text \<open>
  A JavaScript \<^verbatim>\<open>Map\<close> keeps its entries in insertion order, one per key:
  an association list, written with \<open>AList.update\<close> (which replaces in place or
  appends) and \<open>AList.delete\<close>.
\<close>

record SystemInfo =
  cache :: "(string \<times> cache_entry) list"
  cacheTimeout :: int

definition new_SystemInfo :: SystemInfo where
  "new_SystemInfo = \<lparr>cache = [], cacheTimeout = 2000\<rparr>"

text \<open>
  \<^verbatim>\<open>isInCache(key)\<close>, with the value of \<^verbatim>\<open>Date.now()\<close> as
  \<open>now\<close>. A stored entry is an object, hence truthy, so \<^verbatim>\<open>!cached\<close>
  holds exactly when the key is missing.
\<close>

definition isInCache :: "string \<Rightarrow> int \<Rightarrow> SystemInfo \<Rightarrow> bool \<times> SystemInfo" where
  "isInCache key now si =
     (case map_of (cache si) key of
        None \<Rightarrow> (False, si)
      | Some cached \<Rightarrow>
          (let isValid = (now - timestamp cached < cacheTimeout si) in
           if \<not> isValid then (False, si\<lparr>cache := AList.delete key (cache si)\<rparr>)
           else (True, si)))"

definition setCache :: "string \<Rightarrow> reading \<Rightarrow> int \<Rightarrow> SystemInfo \<Rightarrow> SystemInfo" where
  "setCache key d now si =
     si\<lparr>cache := AList.update key \<lparr>data = d, timestamp = now\<rparr> (cache si)\<rparr>"

text \<open>
  \<^verbatim>\<open>clearExpiredCache()\<close>: the loop visits every entry of the map and deletes
  the expired ones (deleting the entry being visited does not disturb the iteration
  of a \<^verbatim>\<open>Map\<close>).
\<close>

fun clearExpired_loop ::
  "int \<Rightarrow> int \<Rightarrow> (string \<times> cache_entry) list \<Rightarrow> (string \<times> cache_entry) list
     \<Rightarrow> (string \<times> cache_entry) list" where
  "clearExpired_loop now ttl [] c = c"
| "clearExpired_loop now ttl ((key, v) # entries) c =
     (if now - timestamp v \<ge> ttl then clearExpired_loop now ttl entries (AList.delete key c)
      else clearExpired_loop now ttl entries c)"

definition clearExpiredCache :: "int \<Rightarrow> SystemInfo \<Rightarrow> SystemInfo" where
  "clearExpiredCache now si =
     si\<lparr>cache := clearExpired_loop now (cacheTimeout si) (cache si) (cache si)\<rparr>"

record cache_stats =
  stats_size :: nat
  stats_keys :: "string list"
  stats_timeout :: int

definition getCacheStats :: "SystemInfo \<Rightarrow> cache_stats" where
  "getCacheStats si =
     \<lparr>stats_size = length (cache si), stats_keys = map fst (cache si),
      stats_timeout = cacheTimeout si\<rparr>"

text \<open>
  \<^verbatim>\<open>this.cache.get(key).data\<close>: reading \<^verbatim>\<open>.data\<close> of
  \<^verbatim>\<open>undefined\<close> throws a \<^verbatim>\<open>TypeError\<close>.
\<close>

definition typeError :: js_error where
  "typeError =
     \<lparr>err_name = ''TypeError'',
      err_message = ''Cannot read properties of undefined (reading data)'',
      err_code = None, err_stack = [], err_isSyntaxError = False\<rparr>"

definition cachedData :: "string \<Rightarrow> SystemInfo \<Rightarrow> reading promise" where
  "cachedData key si =
     (case map_of (cache si) key of None \<Rightarrow> Inl typeError | Some c \<Rightarrow> Inr (data c))"

text \<open>
  Every collector opens with the same read of the cache,
  \<^verbatim>\<open>if (this.isInCache(cacheKey)) return this.cache.get(cacheKey).data\<close>.
  \<open>readCache\<close> is that read: \<open>Some\<close> of what the collector returns at once, or
  \<open>None\<close> when it goes on to ask the OS.
\<close>

definition readCache :: "string \<Rightarrow> int \<Rightarrow> SystemInfo \<Rightarrow> reading promise option \<times> SystemInfo" where
  "readCache key now si =
     (case isInCache key now si of
        (True, si1) \<Rightarrow> (Some (cachedData key si1), si1)
      | (False, si1) \<Rightarrow> (None, si1))"

text \<open>
  The readings built from the answers of the OS: in each collector, the expression
  whose value is named \<^verbatim>\<open>result\<close>.
\<close>

definition cpuResult :: "raw_load \<Rightarrow> raw_cpu \<Rightarrow> reading" where
  "cpuResult cpuLoad cpuInfo =
     CpuData
       \<lparr>usage = round2 (currentLoad cpuLoad),
        cores = length (cpus cpuLoad),
        model = cpu_model cpuInfo,
        speed = cpu_speed cpuInfo,
        coreUsage =
          map (\<lambda>(index, c). \<lparr>core = index, load = round2 (core_load c)\<rparr>)
            (enumerate 0 (cpus cpuLoad))\<rparr>"

definition bytesToGB :: "real \<Rightarrow> real" where
  "bytesToGB bytes = round2 (bytes / 1024 / 1024 / 1024)"

definition memoryResult :: "raw_mem \<Rightarrow> reading" where
  "memoryResult memInfo =
     MemoryData
       \<lparr>total = bytesToGB (mem_total memInfo),
        used = bytesToGB (mem_used memInfo),
        free = bytesToGB (mem_free memInfo),
        usagePercent =
          real_of_int (Math_round (mem_used memInfo / mem_total memInfo * 100 * 100)) / 100\<rparr>"

definition diskResult :: "raw_fs list \<Rightarrow> reading" where
  "diskResult diskInfo =
     DiskData
       (map (\<lambda>disk.
               \<lparr>filesystem = fs_fs disk,
                disk_size = round2 (fs_size disk / 1024 / 1024 / 1024),
                disk_used = round2 (fs_used disk / 1024 / 1024 / 1024),
                disk_available = round2 (fs_available disk / 1024 / 1024 / 1024),
                disk_usagePercent = round2 (fs_use disk),
                mount = fs_mount disk\<rparr>)
          (filter (\<lambda>disk. fs_size disk > 0) diskInfo))"

definition networkResult :: "raw_net list \<Rightarrow> reading" where
  "networkResult networkStats =
     NetworkData
       (map (\<lambda>net.
               \<lparr>interface = net_iface net,
                rxMB = round2 (rx_bytes net / 1024 / 1024),
                txMB = round2 (tx_bytes net / 1024 / 1024),
                rxRate = round2 (rx_sec net / 1024),
                txRate = round2 (tx_sec net / 1024)\<rparr>)
          networkStats)"

text \<open>
  The collectors. \<open>now\<close> is the clock when the cache is read, \<open>stored\<close> the clock
  when the answer of the OS is cached; the answer itself is a settled promise, and a
  rejected one throws at its \<^verbatim>\<open>await\<close>. The \<^verbatim>\<open>try\<close> block holds
  every call that can throw, and its \<^verbatim>\<open>catch\<close> returns the safe default.
\<close>

definition getCPUInfo ::
  "int \<Rightarrow> raw_load promise \<Rightarrow> raw_cpu promise \<Rightarrow> int \<Rightarrow> SystemInfo
     \<Rightarrow> reading promise \<times> SystemInfo" where
  "getCPUInfo now si_currentLoad si_cpu stored si =
     (case readCache ''cpu'' now si of
        (Some r, si1) \<Rightarrow> (r, si1)
      | (None, si1) \<Rightarrow>
          (let safe = CpuData \<lparr>usage = 0, cores = 0, model = ''Unknown'', speed = 0, coreUsage = []\<rparr> in
           case si_currentLoad of
             Inl error \<Rightarrow> (Inr safe, si1)
           | Inr cpuLoad \<Rightarrow>
               (case si_cpu of
                  Inl error \<Rightarrow> (Inr safe, si1)
                | Inr cpuInfo \<Rightarrow>
                    (let result = cpuResult cpuLoad cpuInfo
                     in (Inr result, setCache ''cpu'' result stored si1)))))"

definition getMemoryInfo ::
  "int \<Rightarrow> raw_mem promise \<Rightarrow> int \<Rightarrow> SystemInfo \<Rightarrow> reading promise \<times> SystemInfo" where
  "getMemoryInfo now si_mem stored si =
     (case readCache ''memory'' now si of
        (Some r, si1) \<Rightarrow> (r, si1)
      | (None, si1) \<Rightarrow>
          (case si_mem of
             Inl error \<Rightarrow>
               (Inr (MemoryData \<lparr>total = 0, used = 0, free = 0, usagePercent = 0\<rparr>), si1)
           | Inr memInfo \<Rightarrow>
               (let result = memoryResult memInfo
                in (Inr result, setCache ''memory'' result stored si1))))"

definition getDiskInfo ::
  "int \<Rightarrow> raw_fs list promise \<Rightarrow> int \<Rightarrow> SystemInfo \<Rightarrow> reading promise \<times> SystemInfo" where
  "getDiskInfo now si_fsSize stored si =
     (case readCache ''disk'' now si of
        (Some r, si1) \<Rightarrow> (r, si1)
      | (None, si1) \<Rightarrow>
          (case si_fsSize of
             Inl error \<Rightarrow> (Inr (DiskData []), si1)
           | Inr diskInfo \<Rightarrow>
               (let result = diskResult diskInfo
                in (Inr result, setCache ''disk'' result stored si1))))"

definition getNetworkInfo ::
  "int \<Rightarrow> raw_net list promise \<Rightarrow> int \<Rightarrow> SystemInfo \<Rightarrow> reading promise \<times> SystemInfo" where
  "getNetworkInfo now si_networkStats stored si =
     (case readCache ''network'' now si of
        (Some r, si1) \<Rightarrow> (r, si1)
      | (None, si1) \<Rightarrow>
          (case si_networkStats of
             Inl error \<Rightarrow> (Inr (NetworkData []), si1)
           | Inr networkStats \<Rightarrow>
               (let result = networkResult networkStats
                in (Inr result, setCache ''network'' result stored si1))))"

section \<open>lib/error-handler.js\<close>

datatype ErrorTypes = SYSTEM | NETWORK | DATA | UI | PERFORMANCE | USER

datatype ErrorSeverity = LOW | MEDIUM | HIGH | CRITICAL

fun type_str :: "ErrorTypes \<Rightarrow> string" where
  "type_str SYSTEM = ''system''"
| "type_str NETWORK = ''network''"
| "type_str DATA = ''data''"
| "type_str UI = ''ui''"
| "type_str PERFORMANCE = ''performance''"
| "type_str USER = ''user''"

fun severity_str :: "ErrorSeverity \<Rightarrow> string" where
  "severity_str LOW = ''low''"
| "severity_str MEDIUM = ''medium''"
| "severity_str HIGH = ''high''"
| "severity_str CRITICAL = ''critical''"

record DashboardError =
  e_name :: string
  e_message :: string
  e_type :: ErrorTypes
  e_severity :: ErrorSeverity
  e_details :: jsval
  e_timestamp :: string
  e_stack :: string

definition new_DashboardError ::
  "host \<Rightarrow> string \<Rightarrow> ErrorTypes \<Rightarrow> ErrorSeverity \<Rightarrow> jsval \<Rightarrow> DashboardError" where
  "new_DashboardError h message ty severity details =
     \<lparr>e_name = ''DashboardError'', e_message = message, e_type = ty, e_severity = severity,
      e_details = details, e_timestamp = isoNow h, e_stack = stackTrace h\<rparr>"

definition new_SystemError :: "host \<Rightarrow> string \<Rightarrow> jsval \<Rightarrow> DashboardError" where
  "new_SystemError h message details =
     (new_DashboardError h message SYSTEM HIGH details)\<lparr>e_name := ''SystemError''\<rparr>"


text \<open>
  What reaches \<^verbatim>\<open>handleError\<close>: an instance of \<^verbatim>\<open>DashboardError\<close>
  (or of a subclass), or any other error.
\<close>

datatype thrown = Typed DashboardError | Raw js_error

record log_entry =
  log_timestamp :: string
  log_type :: ErrorTypes
  log_severity :: ErrorSeverity
  log_message :: string
  log_details :: jsval
  log_stack :: string

record ErrorHandler =
  errorLog :: "log_entry list"
  maxLogSize :: nat
  errorCounts :: "(string \<times> nat) list"
  lastErrors :: "(ErrorTypes \<times> DashboardError) list"

definition new_ErrorHandler :: ErrorHandler where
  "new_ErrorHandler = \<lparr>errorLog = [], maxLogSize = 100, errorCounts = [], lastErrors = []\<rparr>"

fun normalizeError :: "host \<Rightarrow> thrown \<Rightarrow> jsval \<Rightarrow> DashboardError" where
  "normalizeError h (Typed error) context = error"
| "normalizeError h (Raw error) context =
     (let (ty, severity) =
        (if err_code error = Some ''ENOENT'' \<or> err_code error = Some ''EACCES''
           then (SYSTEM, HIGH)
         else if err_code error = Some ''ENOTFOUND'' \<or> err_code error = Some ''ECONNREFUSED''
           then (NETWORK, MEDIUM)
         else if err_isSyntaxError error
           then (DATA, MEDIUM)
         else (SYSTEM, MEDIUM))
      in new_DashboardError h
           (if err_message error = [] then ''Unknown error'' else err_message error)
           ty severity
           (JObj [(''originalError'', JStr (err_name error)),
                  (''code'', (case err_code error of None \<Rightarrow> JUndefined | Some c \<Rightarrow> JStr c)),
                  (''context'', context),
                  (''stack'', JStr (err_stack error))]))"

text \<open>The entry that \<^verbatim>\<open>logError\<close> pushes; an empty timestamp is falsy.\<close>

definition entry_of :: "host \<Rightarrow> DashboardError \<Rightarrow> log_entry" where
  "entry_of h error =
     \<lparr>log_timestamp = (if e_timestamp error = [] then isoNow h else e_timestamp error),
      log_type = e_type error,
      log_severity = e_severity error,
      log_message = e_message error,
      log_details = e_details error,
      log_stack = e_stack error\<rparr>"

definition logError :: "host \<Rightarrow> DashboardError \<Rightarrow> ErrorHandler \<Rightarrow> ErrorHandler" where
  "logError h error eh =
     (let pushed = errorLog eh @ [entry_of h error] in
      if length pushed > maxLogSize eh then eh\<lparr>errorLog := tl pushed\<rparr>
      else eh\<lparr>errorLog := pushed\<rparr>)"

definition updateErrorStats :: "DashboardError \<Rightarrow> ErrorHandler \<Rightarrow> ErrorHandler" where
  "updateErrorStats error eh =
     (let key = type_str (e_type error) @ ''_'' @ severity_str (e_severity error) in
      eh\<lparr>errorCounts :=
            AList.update key
              ((case map_of (errorCounts eh) key of None \<Rightarrow> 0 | Some n \<Rightarrow> n) + 1)
              (errorCounts eh),
         lastErrors := AList.update (e_type error) error (lastErrors eh)\<rparr>)"

record error_stats =
  totalErrors :: nat
  stats_errorCounts :: "(string \<times> nat) list"
  recentErrors :: "log_entry list"
  lastErrorsByType :: "(ErrorTypes \<times> DashboardError) list"

definition getErrorStats :: "ErrorHandler \<Rightarrow> error_stats" where
  "getErrorStats eh =
     \<lparr>totalErrors = length (errorLog eh),
      stats_errorCounts = errorCounts eh,
      recentErrors = drop (length (errorLog eh) - 5) (errorLog eh),
      lastErrorsByType = lastErrors eh\<rparr>"

definition clearErrorLog :: "ErrorHandler \<Rightarrow> ErrorHandler" where
  "clearErrorLog eh = eh\<lparr>errorLog := [], errorCounts := [], lastErrors := []\<rparr>"

section \<open>The dashboard object\<close>

text \<open>
  The handler keeps a reference to the dashboard and writes its fields, so its
  remaining methods are functions on the dashboard's state, which holds the handler's
  own fields too.

  A timer made by \<^verbatim>\<open>setInterval\<close> is its period in milliseconds and the
  callback it runs: the one of \<^verbatim>\<open>startUpdateLoop\<close>, or the one of
  \<^verbatim>\<open>temporarilyReduceUpdateFrequency\<close>.
\<close>

datatype timer_callback = UpdateLoopTick | ReducedFrequencyTick

record timer =
  period :: nat
  callback :: timer_callback

record performance_stats =
  totalUpdates :: nat
  averageUpdateTime :: int
  errorCount :: nat
  cacheHitRate :: nat
  startTime :: int

record dashboard_config =
  config_updateInterval :: nat
  maxRetries :: nat
  enableLogging :: bool
  theme :: string

text \<open>
  \<open>exitScheduled\<close> is not a field of the class: it records the exit code of a pending
  \<^verbatim>\<open>setTimeout(() => process.exit(1), 1000)\<close>.
\<close>

record CompleteDashboard =
  systemInfo :: SystemInfo
  errorHandler :: ErrorHandler
  isRunning :: bool
  loggingEnabled :: bool
  degradedMode :: bool
  updateInterval :: "timer option"
  updateCount :: nat
  performanceStats :: performance_stats
  config :: dashboard_config
  exitScheduled :: "nat option"

text \<open>
  The state after the constructor and the first statement of
  \<^verbatim>\<open>initialize\<close>, which creates the error handler; \<open>now\<close> is the clock then.
\<close>

definition new_CompleteDashboard :: "int \<Rightarrow> CompleteDashboard" where
  "new_CompleteDashboard now =
     \<lparr>systemInfo = new_SystemInfo,
      errorHandler = new_ErrorHandler,
      isRunning = False,
      loggingEnabled = False,
      degradedMode = False,
      updateInterval = None,
      updateCount = 0,
      performanceStats =
        \<lparr>totalUpdates = 0, averageUpdateTime = 0, errorCount = 0, cacheHitRate = 0,
         startTime = now\<rparr>,
      config =
        \<lparr>config_updateInterval = 2000, maxRetries = 3, enableLogging = False,
         theme = ''default''\<rparr>,
      exitScheduled = None\<rparr>"

subsection \<open>Recovery and escalation (lib/error-handler.js)\<close>

text \<open>
  \<^verbatim>\<open>temporarilyReduceUpdateFrequency\<close>: only when a timer is armed is it
  replaced, by one of 4000 ms.
\<close>

definition temporarilyReduceUpdateFrequency :: "CompleteDashboard \<Rightarrow> CompleteDashboard" where
  "temporarilyReduceUpdateFrequency d =
     (case updateInterval d of
        None \<Rightarrow> d
      | Some t \<Rightarrow> d\<lparr>updateInterval := Some \<lparr>period = 4000, callback = ReducedFrequencyTick\<rparr>\<rparr>)"

definition enterDegradedMode :: "DashboardError \<Rightarrow> CompleteDashboard \<Rightarrow> CompleteDashboard" where
  "enterDegradedMode error d =
     (let d1 = d\<lparr>degradedMode := True\<rparr>;
          d2 = temporarilyReduceUpdateFrequency d1
      in d2\<lparr>loggingEnabled := False\<rparr>)"

text \<open>
  \<^verbatim>\<open>this.dashboard.systemInfo\<close> is set by the dashboard's constructor and never
  assigned again, so the guard of the two recoveries below always passes.
\<close>

definition recoverFromSystemError :: "DashboardError \<Rightarrow> CompleteDashboard \<Rightarrow> CompleteDashboard" where
  "recoverFromSystemError error d =
     temporarilyReduceUpdateFrequency (d\<lparr>systemInfo := (systemInfo d)\<lparr>cache := []\<rparr>\<rparr>)"

definition recoverFromDataError :: "DashboardError \<Rightarrow> CompleteDashboard \<Rightarrow> CompleteDashboard" where
  "recoverFromDataError error d = d\<lparr>systemInfo := (systemInfo d)\<lparr>cache := []\<rparr>\<rparr>"

definition recoverFromNetworkError :: "DashboardError \<Rightarrow> CompleteDashboard \<Rightarrow> CompleteDashboard" where
  "recoverFromNetworkError error d = d"

definition attemptRecovery :: "DashboardError \<Rightarrow> CompleteDashboard \<Rightarrow> CompleteDashboard" where
  "attemptRecovery error d =
     (case e_type error of
        SYSTEM \<Rightarrow> recoverFromSystemError error d
      | DATA \<Rightarrow> recoverFromDataError error d
      | NETWORK \<Rightarrow> recoverFromNetworkError error d
      | _ \<Rightarrow> d)"

definition handleLowSeverityError :: "DashboardError \<Rightarrow> CompleteDashboard \<Rightarrow> CompleteDashboard" where
  "handleLowSeverityError error d = d"

definition handleMediumSeverityError :: "DashboardError \<Rightarrow> CompleteDashboard \<Rightarrow> CompleteDashboard" where
  "handleMediumSeverityError error d = attemptRecovery error d"

definition handleHighSeverityError :: "DashboardError \<Rightarrow> CompleteDashboard \<Rightarrow> CompleteDashboard" where
  "handleHighSeverityError error d = enterDegradedMode error d"

definition handleCriticalError :: "CompleteDashboard \<Rightarrow> CompleteDashboard" where
  "handleCriticalError d = d\<lparr>exitScheduled := Some 1\<rparr>"

definition handleError ::
  "host \<Rightarrow> thrown \<Rightarrow> jsval \<Rightarrow> CompleteDashboard \<Rightarrow> DashboardError \<times> CompleteDashboard" where
  "handleError h error context d =
     (let dashboardError = normalizeError h error context;
          d1 = d\<lparr>errorHandler := logError h dashboardError (errorHandler d)\<rparr>;
          d2 = (case e_severity dashboardError of
                  LOW \<Rightarrow> handleLowSeverityError dashboardError d1
                | MEDIUM \<Rightarrow> handleMediumSeverityError dashboardError d1
                | HIGH \<Rightarrow> handleHighSeverityError dashboardError d1
                | CRITICAL \<Rightarrow> handleCriticalError d1);
          d3 = d2\<lparr>errorHandler := updateErrorStats dashboardError (errorHandler d2)\<rparr>
      in (dashboardError, d3))"

section \<open>The refresh cycle (the dashboard's main file)\<close>

text \<open>
  The four guarded collectors. A rejection of the collector is reported to the error
  handler as a \<^verbatim>\<open>LOW\<close> error and replaced by \<^verbatim>\<open>null\<close> (CPU and
  memory, \<open>None\<close> here) or by an empty list (disk and network).
\<close>

definition collection_failed :: "host \<Rightarrow> string \<Rightarrow> js_error \<Rightarrow> thrown" where
  "collection_failed h what error =
     Typed (new_DashboardError h (what @ '' data collection failed: '' @ err_message error)
              SYSTEM LOW (JObj [(''error'', JErr error)]))"

definition safeGetCPUInfo ::
  "host \<Rightarrow> int \<Rightarrow> raw_load promise \<Rightarrow> raw_cpu promise \<Rightarrow> int \<Rightarrow> CompleteDashboard
     \<Rightarrow> reading option \<times> CompleteDashboard" where
  "safeGetCPUInfo h now si_currentLoad si_cpu stored d =
     (case getCPUInfo now si_currentLoad si_cpu stored (systemInfo d) of
        (Inr r, si1) \<Rightarrow> (Some r, d\<lparr>systemInfo := si1\<rparr>)
      | (Inl error, si1) \<Rightarrow>
          (None, snd (handleError h (collection_failed h ''CPU'' error) (JObj [])
                        (d\<lparr>systemInfo := si1\<rparr>))))"

definition safeGetMemoryInfo ::
  "host \<Rightarrow> int \<Rightarrow> raw_mem promise \<Rightarrow> int \<Rightarrow> CompleteDashboard
     \<Rightarrow> reading option \<times> CompleteDashboard" where
  "safeGetMemoryInfo h now si_mem stored d =
     (case getMemoryInfo now si_mem stored (systemInfo d) of
        (Inr r, si1) \<Rightarrow> (Some r, d\<lparr>systemInfo := si1\<rparr>)
      | (Inl error, si1) \<Rightarrow>
          (None, snd (handleError h (collection_failed h ''Memory'' error) (JObj [])
                        (d\<lparr>systemInfo := si1\<rparr>))))"

definition safeGetDiskInfo ::
  "host \<Rightarrow> int \<Rightarrow> raw_fs list promise \<Rightarrow> int \<Rightarrow> CompleteDashboard
     \<Rightarrow> reading \<times> CompleteDashboard" where
  "safeGetDiskInfo h now si_fsSize stored d =
     (case getDiskInfo now si_fsSize stored (systemInfo d) of
        (Inr r, si1) \<Rightarrow> (r, d\<lparr>systemInfo := si1\<rparr>)
      | (Inl error, si1) \<Rightarrow>
          (DiskData [], snd (handleError h (collection_failed h ''Disk'' error) (JObj [])
                               (d\<lparr>systemInfo := si1\<rparr>))))"

definition safeGetNetworkInfo ::
  "host \<Rightarrow> int \<Rightarrow> raw_net list promise \<Rightarrow> int \<Rightarrow> CompleteDashboard
     \<Rightarrow> reading \<times> CompleteDashboard" where
  "safeGetNetworkInfo h now si_networkStats stored d =
     (case getNetworkInfo now si_networkStats stored (systemInfo d) of
        (Inr r, si1) \<Rightarrow> (r, d\<lparr>systemInfo := si1\<rparr>)
      | (Inl error, si1) \<Rightarrow>
          (NetworkData [], snd (handleError h (collection_failed h ''Network'' error) (JObj [])
                                  (d\<lparr>systemInfo := si1\<rparr>))))"

text \<open>
  What one cycle meets outside the program: how each OS query settles, and the clock
  at each read of \<^verbatim>\<open>Date.now()\<close> (when a collector reads the cache, when it
  stores the answer, and when the cycle sweeps the cache).
\<close>

record cycle_env =
  env_host :: host
  cpu_now :: int
  os_currentLoad :: "raw_load promise"
  os_cpu :: "raw_cpu promise"
  cpu_stored :: int
  memory_now :: int
  os_mem :: "raw_mem promise"
  memory_stored :: int
  disk_now :: int
  os_fsSize :: "raw_fs list promise"
  disk_stored :: int
  network_now :: int
  os_networkStats :: "raw_net list promise"
  network_stored :: int
  sweep_now :: int

text \<open>The four values that \<^verbatim>\<open>Promise.all\<close> hands to the widgets.\<close>

record cycle_results =
  cpuInfo :: "reading option"
  memoryInfo :: "reading option"
  diskInfo :: reading
  networkInfo :: reading

text \<open>
  \<^verbatim>\<open>updateDisplay()\<close>. The four collections are started together; each reads
  and writes only the cache entry of its own key, at the clock values given by the
  environment, so the collections are composed here in the order of the array. Under
  the assumptions on the widgets nothing in the body throws, and the
  \<^verbatim>\<open>catch\<close> of the body is never entered.
\<close>

definition updateDisplay :: "cycle_env \<Rightarrow> CompleteDashboard \<Rightarrow> cycle_results \<times> CompleteDashboard" where
  "updateDisplay env d =
     (let (cpuI, d1) =
            safeGetCPUInfo (env_host env) (cpu_now env) (os_currentLoad env) (os_cpu env)
              (cpu_stored env) d;
          (memoryI, d2) =
            safeGetMemoryInfo (env_host env) (memory_now env) (os_mem env) (memory_stored env) d1;
          (diskI, d3) =
            safeGetDiskInfo (env_host env) (disk_now env) (os_fsSize env) (disk_stored env) d2;
          (networkI, d4) =
            safeGetNetworkInfo (env_host env) (network_now env) (os_networkStats env)
              (network_stored env) d3;
          d5 = d4\<lparr>systemInfo := clearExpiredCache (sweep_now env) (systemInfo d4)\<rparr>;
          d6 = d5\<lparr>updateCount := updateCount d5 + 1\<rparr>
      in (\<lparr>cpuInfo = cpuI, memoryInfo = memoryI, diskInfo = diskI, networkInfo = networkI\<rparr>, d6))"

text \<open>\<^verbatim>\<open>updatePerformanceStats(updateTime)\<close>; durations are whole milliseconds.\<close>

definition updatePerformanceStats :: "int \<Rightarrow> CompleteDashboard \<Rightarrow> CompleteDashboard" where
  "updatePerformanceStats updateTime d =
     (let ps = performanceStats d;
          n = totalUpdates ps + 1;
          totalTime = averageUpdateTime ps * (int n - 1) + updateTime;
          cacheStats = getCacheStats (systemInfo d)
      in d\<lparr>performanceStats :=
             ps\<lparr>totalUpdates := n,
                averageUpdateTime := Math_round (real_of_int totalTime / real n),
                errorCount := totalErrors (getErrorStats (errorHandler d)),
                cacheHitRate := (if stats_size cacheStats > 0 then 85 else 0)\<rparr>\<rparr>)"

text \<open>
  \<^verbatim>\<open>startUpdateLoop()\<close>: one cycle at once, then the periodic timer.
\<close>

definition startUpdateLoop :: "cycle_env \<Rightarrow> CompleteDashboard \<Rightarrow> CompleteDashboard" where
  "startUpdateLoop env d =
     (let (r, d1) = updateDisplay env d in
      d1\<lparr>updateInterval :=
           Some \<lparr>period = config_updateInterval (config d1), callback = UpdateLoopTick\<rparr>\<rparr>)"

subsection \<open>The timer callbacks on the event loop\<close>

text \<open>
  Both timer callbacks are \<^verbatim>\<open>async\<close> functions that test
  \<^verbatim>\<open>this.isRunning\<close> and then \<^verbatim>\<open>await this.updateDisplay()\<close>. The
  callback returns to the event loop at the \<^verbatim>\<open>await\<close>; the timer keeps
  firing whether or not the awaited cycle has settled. The event loop is modelled by
  two kinds of step: the armed timer fires, or the oldest cycle still awaited
  settles (its effect on the dashboard is applied when it settles). \<open>pending\<close> lists
  the cycles that have begun and have not settled, with the clock at their start.
\<close>

record pending_cycle =
  cycle_startTime :: int
  cycle_callback :: timer_callback

record event_loop =
  dashboard :: CompleteDashboard
  pending :: "pending_cycle list"

datatype event = TimerFires int | CycleSettles cycle_env int

fun step :: "event \<Rightarrow> event_loop \<Rightarrow> event_loop" where
  "step (TimerFires now) w =
     (case updateInterval (dashboard w) of
        None \<Rightarrow> w
      | Some t \<Rightarrow>
          if isRunning (dashboard w)
          then w\<lparr>pending := pending w @ [\<lparr>cycle_startTime = now, cycle_callback = callback t\<rparr>]\<rparr>
          else w)"
| "step (CycleSettles env now) w =
     (case pending w of
        [] \<Rightarrow> w
      | c # cs \<Rightarrow>
          (let d1 = snd (updateDisplay env (dashboard w));
               d2 = (case cycle_callback c of
                       UpdateLoopTick \<Rightarrow> updatePerformanceStats (now - cycle_startTime c) d1
                     | ReducedFrequencyTick \<Rightarrow> d1)
           in w\<lparr>dashboard := d2, pending := cs\<rparr>))"


text \<open>
  The formula of the specification for the running average, as the specification
  words it: \<open>avg_n = (avg_{n-1} * (n - 1) + t_n) / n\<close>.
\<close>

definition spec_average :: "real \<Rightarrow> nat \<Rightarrow> real \<Rightarrow> real" where
  "spec_average avg_prev n t = (avg_prev * (real n - 1) + t) / real n"

section \<open>Sequences of calls and sample values\<close>

text \<open>Logging a sequence of errors, each with what the host supplies at its call.\<close>

definition insert_all :: "(host \<times> DashboardError) list \<Rightarrow> ErrorHandler \<Rightarrow> ErrorHandler" where
  "insert_all es eh = fold (\<lambda>(h, error). logError h error) es eh"

definition example_host :: host where
  "example_host = \<lparr>isoNow = ''2024-01-01T00:00:00.000Z'', stackTrace = ''Error: at main''\<rparr>"

definition numbered_error :: "nat \<Rightarrow> host \<times> DashboardError" where
  "numbered_error i =
     (example_host, new_DashboardError example_host ''warning'' PERFORMANCE LOW (JNum (int i)))"

definition os_error :: "string \<Rightarrow> string option \<Rightarrow> bool \<Rightarrow> js_error" where
  "os_error message code syntax =
     \<lparr>err_name = (if syntax then ''SyntaxError'' else ''Error''), err_message = message,
      err_code = code, err_stack = [], err_isSyntaxError = syntax\<rparr>"

definition example_cpu :: reading where
  "example_cpu =
     CpuData \<lparr>usage = 12.5, cores = 2, model = ''Example CPU'', speed = 2.4,
              coreUsage = [\<lparr>core = 0, load = 10\<rparr>, \<lparr>core = 1, load = 15\<rparr>]\<rparr>"

text \<open>The running average after each of a sequence of timed cycles.\<close>

fun averages_after :: "int list \<Rightarrow> CompleteDashboard \<Rightarrow> int list" where
  "averages_after [] d = []"
| "averages_after (t # ts) d =
     (let d1 = updatePerformanceStats t d in
      averageUpdateTime (performanceStats d1) # averages_after ts d1)"

text \<open>A dashboard whose per-update logging was switched on, and one with two cached readings.\<close>

definition logging_dashboard :: CompleteDashboard where
  "logging_dashboard = (new_CompleteDashboard 0)\<lparr>loggingEnabled := True\<rparr>"

definition warm_dashboard :: CompleteDashboard where
  "warm_dashboard =
     (new_CompleteDashboard 0)
       \<lparr>systemInfo := setCache ''disk'' (DiskData []) 5 (setCache ''cpu'' example_cpu 3 new_SystemInfo)\<rparr>"

section \<open>Notions used to state and prove the properties\<close>

text \<open>
  The four collectors have one shape: read the cache under the source's key; on a
  miss, take the answer of the OS (already turned into a reading, or the rejection),
  cache and return a reading, or return the safe default when the answer is a
  rejection. \<open>collector\<close> is that shape; each collector is proved equal to an
  instance of it below.
\<close>

definition safe_cpu :: reading where
  "safe_cpu = CpuData \<lparr>usage = 0, cores = 0, model = ''Unknown'', speed = 0, coreUsage = []\<rparr>"

definition safe_memory :: reading where
  "safe_memory = MemoryData \<lparr>total = 0, used = 0, free = 0, usagePercent = 0\<rparr>"

definition collector ::
  "string \<Rightarrow> reading \<Rightarrow> int \<Rightarrow> reading promise \<Rightarrow> int \<Rightarrow> SystemInfo
     \<Rightarrow> reading promise \<times> SystemInfo" where
  "collector key safe now answer stored si =
     (case readCache key now si of
        (Some r, si1) \<Rightarrow> (r, si1)
      | (None, si1) \<Rightarrow>
          (case answer of
             Inl error \<Rightarrow> (Inr safe, si1)
           | Inr result \<Rightarrow> (Inr result, setCache key result stored si1)))"

definition cpu_answer :: "raw_load promise \<Rightarrow> raw_cpu promise \<Rightarrow> reading promise" where
  "cpu_answer q_load q_cpu =
     (case q_load of
        Inl error \<Rightarrow> Inl error
      | Inr cpuLoad \<Rightarrow>
          (case q_cpu of Inl error \<Rightarrow> Inl error | Inr info \<Rightarrow> Inr (cpuResult cpuLoad info)))"

text \<open>What a cached entry becomes when the cache is swept at time \<open>now\<close>.\<close>

definition swept :: "int \<Rightarrow> int \<Rightarrow> cache_entry option \<Rightarrow> cache_entry option" where
  "swept now ttl m =
     (case m of None \<Rightarrow> None | Some v \<Rightarrow> if now - timestamp v \<ge> ttl then None else Some v)"

text \<open>
  The five queries that a cycle puts to the OS, the cache key of the collector that
  issues each, the clock at that collector's read of the cache, and the environment
  in which a given query is rejected. \<open>result_for\<close> reads the cycle's result for a
  cache key (the disk and network results are never \<^verbatim>\<open>null\<close>).
\<close>

datatype os_query = CurrentLoad | Cpu | Mem | FsSize | NetworkStats

fun cache_key :: "os_query \<Rightarrow> string" where
  "cache_key CurrentLoad = ''cpu''"
| "cache_key Cpu = ''cpu''"
| "cache_key Mem = ''memory''"
| "cache_key FsSize = ''disk''"
| "cache_key NetworkStats = ''network''"

fun read_time :: "os_query \<Rightarrow> cycle_env \<Rightarrow> int" where
  "read_time CurrentLoad env = cpu_now env"
| "read_time Cpu env = cpu_now env"
| "read_time Mem env = memory_now env"
| "read_time FsSize env = disk_now env"
| "read_time NetworkStats env = network_now env"

fun rejecting :: "os_query \<Rightarrow> js_error \<Rightarrow> cycle_env \<Rightarrow> cycle_env" where
  "rejecting CurrentLoad e env = env\<lparr>os_currentLoad := Inl e\<rparr>"
| "rejecting Cpu e env = env\<lparr>os_cpu := Inl e\<rparr>"
| "rejecting Mem e env = env\<lparr>os_mem := Inl e\<rparr>"
| "rejecting FsSize e env = env\<lparr>os_fsSize := Inl e\<rparr>"
| "rejecting NetworkStats e env = env\<lparr>os_networkStats := Inl e\<rparr>"

fun safe_reading :: "os_query \<Rightarrow> reading" where
  "safe_reading CurrentLoad = safe_cpu"
| "safe_reading Cpu = safe_cpu"
| "safe_reading Mem = safe_memory"
| "safe_reading FsSize = DiskData []"
| "safe_reading NetworkStats = NetworkData []"

definition result_for :: "string \<Rightarrow> cycle_results \<Rightarrow> reading option" where
  "result_for key r =
     (if key = ''cpu'' then cpuInfo r
      else if key = ''memory'' then memoryInfo r
      else if key = ''disk'' then Some (diskInfo r)
      else if key = ''network'' then Some (networkInfo r)
      else None)"

text \<open>
  A cycle in which every query succeeds on a machine with no disks and no network
  interfaces; the same cycle with the disk query rejected; a dashboard whose update
  loop has started (first cycle done, timer armed) and which is running; an error of
  the OS; and the error that the screen's \<^verbatim>\<open>error\<close> event is turned into.
\<close>

definition permission_denied :: js_error where
  "permission_denied = os_error ''EACCES: permission denied'' (Some ''EACCES'') False"

definition example_env :: cycle_env where
  "example_env =
     \<lparr>env_host = example_host,
      cpu_now = 0,
      os_currentLoad = Inr \<lparr>currentLoad = 12.5, cpus = [\<lparr>core_load = 10\<rparr>, \<lparr>core_load = 15\<rparr>]\<rparr>,
      os_cpu = Inr \<lparr>cpu_model = ''Example CPU'', cpu_speed = 2.4\<rparr>,
      cpu_stored = 3,
      memory_now = 0,
      os_mem = Inr \<lparr>mem_total = 8589934592, mem_used = 4294967296, mem_free = 4294967296\<rparr>,
      memory_stored = 2,
      disk_now = 0,
      os_fsSize = Inr [],
      disk_stored = 5,
      network_now = 0,
      os_networkStats = Inr [],
      network_stored = 4,
      sweep_now = 6\<rparr>"

definition running_dashboard :: CompleteDashboard where
  "running_dashboard = (startUpdateLoop example_env (new_CompleteDashboard 0))\<lparr>isRunning := True\<rparr>"

definition screen_error :: thrown where
  "screen_error =
     Typed (new_DashboardError example_host ''Screen error: write EIO'' UI HIGH
              (JObj [(''error'', JErr (os_error ''write EIO'' (Some ''EIO'') False))]))"

definition disk_failing_env :: cycle_env where
  "disk_failing_env = example_env\<lparr>os_fsSize := Inl permission_denied\<rparr>"

section \<open>Properties\<close>

subsection \<open>The bounded error log\<close>

lemma logError_maxLogSize: "maxLogSize (logError h error eh) = maxLogSize eh"
  by (simp add: logError_def Let_def)

lemma insert_all_maxLogSize: "maxLogSize (insert_all es eh) = maxLogSize eh"
  unfolding insert_all_def
  by (induction es arbitrary: eh) (auto simp: logError_maxLogSize)

lemma insert_all_snoc:
  "insert_all (es @ [(h, error)]) eh = logError h error (insert_all es eh)"
  by (simp add: insert_all_def)

lemma push_shift:
  fixes L :: "'a list"
  assumes "L = drop (n - M) xs" and "length xs = n"
  shows "(let pushed = L @ [x] in if length pushed > M then tl pushed else pushed) =
           drop (Suc n - M) (xs @ [x])"
proof (cases "n < M")
  case True
  with assms show ?thesis by (simp add: Let_def)
next
  case False
  then have k: "Suc n - M = Suc (n - M)" and le: "n - M \<le> length xs"
    using assms by simp_all
  have p: "L @ [x] = drop (n - M) (xs @ [x])" using assms le by simp
  have long: "length (L @ [x]) > M" using assms False by simp
  have "tl (L @ [x]) = drop (Suc (n - M)) (xs @ [x])"
    unfolding p by (simp only: drop_Suc drop_tl)
  with long show ?thesis by (simp only: Let_def if_True k)
qed

lemma insert_all_log:
  assumes "length (errorLog eh) \<le> maxLogSize eh"
  shows "errorLog (insert_all es eh) =
           drop (length (errorLog eh) + length es - maxLogSize eh)
             (errorLog eh @ map (\<lambda>(h, error). entry_of h error) es)"
proof (induction es rule: rev_induct)
  case Nil
  from assms show ?case by (simp add: insert_all_def)
next
  case (snoc x es)
  obtain h error where x: "x = (h, error)" by (cases x)
  define xs where "xs = errorLog eh @ map (\<lambda>(h, error). entry_of h error) es"
  define n where "n = length (errorLog eh) + length es"
  have len: "length xs = n" by (simp add: xs_def n_def)
  have ih: "errorLog (insert_all es eh) = drop (n - maxLogSize eh) xs"
    using snoc by (simp add: xs_def n_def)
  have "errorLog (insert_all (es @ [x]) eh) =
          (let pushed = errorLog (insert_all es eh) @ [entry_of h error] in
           if length pushed > maxLogSize eh then tl pushed else pushed)"
    by (simp add: x insert_all_snoc logError_def Let_def insert_all_maxLogSize)
  also have "\<dots> = drop (Suc n - maxLogSize eh) (xs @ [entry_of h error])"
    by (rule push_shift [OF ih len])
  finally show ?case by (simp add: xs_def n_def x)
qed

text \<open>
  C5. From any log within its bound (the fresh log is empty), after
  \<open>maxLogSize + k\<close> errors with \<open>k > 0\<close> have been logged, the log holds exactly
  \<open>maxLogSize\<close> entries: those of the last \<open>maxLogSize\<close> errors, in the order of their
  insertion; the oldest entries were dropped.
\<close>

theorem ring_log_bound:
  assumes "length (errorLog eh) \<le> maxLogSize eh"
    and "0 < k"
    and "length es = maxLogSize eh + k"
  shows "errorLog (insert_all es eh) = map (\<lambda>(h, error). entry_of h error) (drop k es)
       \<and> length (errorLog (insert_all es eh)) = maxLogSize eh"
proof -
  have "errorLog (insert_all es eh) =
          drop (length (errorLog eh) + k) (errorLog eh @ map (\<lambda>(h, error). entry_of h error) es)"
    using insert_all_log [OF assms(1), of es] assms(3) by simp
  then have eq: "errorLog (insert_all es eh) = map (\<lambda>(h, error). entry_of h error) (drop k es)"
    by (simp add: drop_map)
  then show ?thesis using assms(3) by simp
qed

theorem ring_log_bound_witness:
  "length (errorLog new_ErrorHandler) \<le> maxLogSize new_ErrorHandler
   \<and> (0::nat) < 1
   \<and> length (map numbered_error [0..<101]) = maxLogSize new_ErrorHandler + 1
   \<and> errorLog (insert_all (map numbered_error [0..<101]) new_ErrorHandler) =
       map (\<lambda>(h, error). entry_of h error) (map numbered_error [1..<101])
   \<and> length (errorLog (insert_all (map numbered_error [0..<101]) new_ErrorHandler)) = 100"
  using ring_log_bound [of new_ErrorHandler 1 "map numbered_error [0..<101]"]
  by (simp add: new_ErrorHandler_def drop_map)

subsection \<open>Classification\<close>



subsection \<open>Freshness of the cache\<close>

lemma isInCache_missing:
  "map_of (cache si) key = None \<Longrightarrow> isInCache key now si = (False, si)"
  by (simp add: isInCache_def)

lemma isInCache_expired:
  "map_of (cache si) key = Some e \<Longrightarrow> cacheTimeout si \<le> now - timestamp e \<Longrightarrow>
     isInCache key now si = (False, si\<lparr>cache := AList.delete key (cache si)\<rparr>)"
  by (simp add: isInCache_def Let_def)

lemma isInCache_valid:
  "map_of (cache si) key = Some e \<Longrightarrow> now - timestamp e < cacheTimeout si \<Longrightarrow>
     isInCache key now si = (True, si)"
  by (simp add: isInCache_def Let_def)

text \<open>
  C1. For every key, the read of the cache that opens each collector returns nothing
  when the entry's age \<open>now - timestamp\<close> has reached \<open>cacheTimeout\<close>, and deletes
  that entry, whatever the state of the cache (no sweep is needed). The default
  \<open>cacheTimeout\<close> is 2000 ms: after \<open>setCache ''cpu'' r1\<close> at time 0, the read at 1999
  returns \<open>r1\<close> (and so does \<open>getCPUInfo\<close>, whatever the OS would answer), and the read
  at 2001 returns nothing and leaves the cache empty.
\<close>

theorem ttl_invariant:
  "(map_of (cache si) key = Some e \<and> now - timestamp e \<ge> cacheTimeout si \<longrightarrow>
      fst (readCache key now si) = None
      \<and> map_of (cache (snd (readCache key now si))) key = None)
   \<and> cacheTimeout new_SystemInfo = 2000
   \<and> readCache ''cpu'' 1999 (setCache ''cpu'' r1 0 new_SystemInfo)
       = (Some (Inr r1), setCache ''cpu'' r1 0 new_SystemInfo)
   \<and> fst (getCPUInfo 1999 q_load q_cpu stored (setCache ''cpu'' r1 0 new_SystemInfo)) = Inr r1
   \<and> fst (readCache ''cpu'' 2001 (setCache ''cpu'' r1 0 new_SystemInfo)) = None
   \<and> cache (snd (readCache ''cpu'' 2001 (setCache ''cpu'' r1 0 new_SystemInfo))) = []"
proof -
  have a: "map_of (cache si) key = Some e \<and> now - timestamp e \<ge> cacheTimeout si \<longrightarrow>
      fst (readCache key now si) = None
      \<and> map_of (cache (snd (readCache key now si))) key = None"
    by (auto simp: readCache_def isInCache_expired delete_conv')
  have b: "readCache ''cpu'' 1999 (setCache ''cpu'' r1 0 new_SystemInfo)
       = (Some (Inr r1), setCache ''cpu'' r1 0 new_SystemInfo)"
    by (simp add: readCache_def isInCache_def setCache_def new_SystemInfo_def cachedData_def)
  have c: "fst (getCPUInfo 1999 q_load q_cpu stored (setCache ''cpu'' r1 0 new_SystemInfo)) = Inr r1"
    by (simp add: getCPUInfo_def b)
  have d: "readCache ''cpu'' 2001 (setCache ''cpu'' r1 0 new_SystemInfo) = (None, new_SystemInfo)"
    by (simp add: readCache_def isInCache_def setCache_def new_SystemInfo_def)
  show ?thesis using a b c d by (simp add: new_SystemInfo_def)
qed

theorem ttl_invariant_witness:
  "map_of (cache (setCache ''cpu'' example_cpu 0 new_SystemInfo)) ''cpu''
       = Some \<lparr>data = example_cpu, timestamp = 0\<rparr>
   \<and> 2000 - timestamp \<lparr>data = example_cpu, timestamp = 0\<rparr>
       \<ge> cacheTimeout (setCache ''cpu'' example_cpu 0 new_SystemInfo)
   \<and> fst (readCache ''cpu'' 2000 (setCache ''cpu'' example_cpu 0 new_SystemInfo)) = None
   \<and> map_of (cache (snd (readCache ''cpu'' 2000 (setCache ''cpu'' example_cpu 0 new_SystemInfo)))) ''cpu'' = None"
  using ttl_invariant [of "setCache ''cpu'' example_cpu 0 new_SystemInfo" "''cpu''"
          "\<lparr>data = example_cpu, timestamp = 0\<rparr>" 2000]
  by (simp add: setCache_def new_SystemInfo_def)

subsection \<open>The running average of the cycle duration\<close>

lemma averageUpdateTime_update:
  "averageUpdateTime (performanceStats (updatePerformanceStats t d)) =
     Math_round (spec_average (real_of_int (averageUpdateTime (performanceStats d)))
                   (totalUpdates (performanceStats d) + 1) (real_of_int t))"
  by (simp add: updatePerformanceStats_def Let_def spec_average_def)

lemma totalUpdates_update:
  "totalUpdates (performanceStats (updatePerformanceStats t d)) = totalUpdates (performanceStats d) + 1"
  by (simp add: updatePerformanceStats_def Let_def)

lemma Math_round_close: "\<bar>real_of_int (Math_round x) - x\<bar> \<le> 1 / 2"
  unfolding Math_round_def by linarith

text \<open>
  C6, as stated, fails: the code rounds the average to a whole number of milliseconds
  at every step. After cycles of 10 ms and 21 ms the stored average is 16, where the
  formula gives 15.5.
\<close>

theorem running_average_counterexample:
  "averages_after [10, 21] (new_CompleteDashboard 0) = [10, 16]
   \<and> spec_average 10 2 21 = 31 / 2
   \<and> real_of_int (averages_after [10, 21] (new_CompleteDashboard 0) ! 1)
       \<noteq> spec_average (real_of_int (averages_after [10, 21] (new_CompleteDashboard 0) ! 0)) 2 21"
  by (simp add: Let_def averageUpdateTime_update totalUpdates_update spec_average_def
        new_CompleteDashboard_def Math_round_def)

text \<open>
  C6, amended. After every cycle the stored average is the formula's value
  \<open>(avg * (n - 1) + t) / n\<close> rounded to the nearest integer (halves upwards), computed
  from the stored, already rounded, previous average; it is within half a millisecond
  of the formula's value. After cycles of 10, 20 and 30 ms the averages are 10, 15
  and 20.
\<close>

theorem running_average_rounded:
  "averageUpdateTime (performanceStats (updatePerformanceStats t d)) =
     Math_round (spec_average (real_of_int (averageUpdateTime (performanceStats d)))
                   (totalUpdates (performanceStats d) + 1) (real_of_int t))
   \<and> \<bar>real_of_int (averageUpdateTime (performanceStats (updatePerformanceStats t d)))
        - spec_average (real_of_int (averageUpdateTime (performanceStats d)))
            (totalUpdates (performanceStats d) + 1) (real_of_int t)\<bar> \<le> 1 / 2
   \<and> totalUpdates (performanceStats (updatePerformanceStats t d)) =
        totalUpdates (performanceStats d) + 1
   \<and> averages_after [10, 20, 30] (new_CompleteDashboard t0) = [10, 15, 20]"
proof -
  have "averages_after [10, 20, 30] (new_CompleteDashboard t0) = [10, 15, 20]"
    by (simp add: Let_def averageUpdateTime_update totalUpdates_update spec_average_def
          new_CompleteDashboard_def Math_round_def)
  then show ?thesis
    by (simp only: averageUpdateTime_update totalUpdates_update Math_round_close simp_thms)
qed

subsection \<open>What handling an error does to the dashboard\<close>

lemma normalize_Typed: "normalizeError h (Typed e) ctx = e"
  by simp

lemma temporarilyReduce_fields:
  "systemInfo (temporarilyReduceUpdateFrequency d) = systemInfo d"
  "errorHandler (temporarilyReduceUpdateFrequency d) = errorHandler d"
  "isRunning (temporarilyReduceUpdateFrequency d) = isRunning d"
  "loggingEnabled (temporarilyReduceUpdateFrequency d) = loggingEnabled d"
  "degradedMode (temporarilyReduceUpdateFrequency d) = degradedMode d"
  "updateCount (temporarilyReduceUpdateFrequency d) = updateCount d"
  "performanceStats (temporarilyReduceUpdateFrequency d) = performanceStats d"
  "config (temporarilyReduceUpdateFrequency d) = config d"
  "exitScheduled (temporarilyReduceUpdateFrequency d) = exitScheduled d"
  by (simp_all add: temporarilyReduceUpdateFrequency_def split: option.split)

lemma temporarilyReduce_timer:
  "updateInterval (temporarilyReduceUpdateFrequency d) =
     (case updateInterval d of None \<Rightarrow> None
      | Some t \<Rightarrow> Some \<lparr>period = 4000, callback = ReducedFrequencyTick\<rparr>)"
  by (simp add: temporarilyReduceUpdateFrequency_def split: option.split)

text \<open>What handling an error of each severity does to the dashboard.\<close>

lemma handleError_LOW:
  "e_severity (normalizeError h error ctx) = LOW \<Longrightarrow>
     snd (handleError h error ctx d) =
       d\<lparr>errorHandler := updateErrorStats (normalizeError h error ctx)
                            (logError h (normalizeError h error ctx) (errorHandler d))\<rparr>"
  by (simp add: handleError_def Let_def handleLowSeverityError_def)

lemma handleError_HIGH:
  "e_severity (normalizeError h error ctx) = HIGH \<Longrightarrow>
     snd (handleError h error ctx d) =
       (temporarilyReduceUpdateFrequency
          (d\<lparr>errorHandler := logError h (normalizeError h error ctx) (errorHandler d),
             degradedMode := True\<rparr>))
        \<lparr>loggingEnabled := False,
         errorHandler := updateErrorStats (normalizeError h error ctx)
                           (logError h (normalizeError h error ctx) (errorHandler d))\<rparr>"
  by (simp add: handleError_def Let_def handleHighSeverityError_def enterDegradedMode_def
        temporarilyReduce_fields)

lemma handleError_MEDIUM_DATA:
  "e_severity (normalizeError h error ctx) = MEDIUM \<Longrightarrow>
   e_type (normalizeError h error ctx) = DATA \<Longrightarrow>
     snd (handleError h error ctx d) =
       d\<lparr>systemInfo := (systemInfo d)\<lparr>cache := []\<rparr>,
         errorHandler := updateErrorStats (normalizeError h error ctx)
                           (logError h (normalizeError h error ctx) (errorHandler d))\<rparr>"
  by (simp add: handleError_def Let_def handleMediumSeverityError_def attemptRecovery_def
        recoverFromDataError_def)

text \<open>
  C10. Handling an error of severity HIGH sets \<open>degradedMode\<close> and also sets the
  dashboard's \<open>loggingEnabled\<close> flag to false.
\<close>

theorem high_error_disables_logging:
  "e_severity (normalizeError h error ctx) = HIGH \<Longrightarrow>
     degradedMode (snd (handleError h error ctx d)) = True
     \<and> loggingEnabled (snd (handleError h error ctx d)) = False"
  by (simp add: handleError_HIGH temporarilyReduce_fields)

theorem high_error_disables_logging_witness:
  "e_severity (normalizeError example_host (Raw (os_error ''denied'' (Some ''EACCES'') False)) (JObj [])) = HIGH
   \<and> loggingEnabled logging_dashboard = True
   \<and> degradedMode logging_dashboard = False
   \<and> degradedMode (snd (handleError example_host (Raw (os_error ''denied'' (Some ''EACCES'') False))
                           (JObj []) logging_dashboard)) = True
   \<and> loggingEnabled (snd (handleError example_host (Raw (os_error ''denied'' (Some ''EACCES'') False))
                             (JObj []) logging_dashboard)) = False"
proof -
  have sev: "e_severity (normalizeError example_host
               (Raw (os_error ''denied'' (Some ''EACCES'') False)) (JObj [])) = HIGH"
    by (simp add: os_error_def new_DashboardError_def)
  show ?thesis
    using sev high_error_disables_logging [OF sev, of logging_dashboard]
    by (simp add: logging_dashboard_def new_CompleteDashboard_def)
qed

text \<open>
  C8. Handling an error of type DATA and severity MEDIUM clears the cache: whatever
  the cache held before, it is empty afterwards and its size is 0.
\<close>

theorem data_error_clears_cache:
  "e_severity (normalizeError h error ctx) = MEDIUM \<Longrightarrow>
   e_type (normalizeError h error ctx) = DATA \<Longrightarrow>
     cache (systemInfo (snd (handleError h error ctx d))) = []
     \<and> stats_size (getCacheStats (systemInfo (snd (handleError h error ctx d)))) = 0"
  by (simp add: handleError_MEDIUM_DATA getCacheStats_def)

theorem data_error_clears_cache_witness:
  "e_severity (normalizeError example_host (Raw (os_error ''Unexpected token'' None True)) (JObj [])) = MEDIUM
   \<and> e_type (normalizeError example_host (Raw (os_error ''Unexpected token'' None True)) (JObj [])) = DATA
   \<and> stats_size (getCacheStats (systemInfo warm_dashboard)) = 2
   \<and> cache (systemInfo (snd (handleError example_host (Raw (os_error ''Unexpected token'' None True))
                               (JObj []) warm_dashboard))) = []
   \<and> stats_size (getCacheStats (systemInfo (snd (handleError example_host
         (Raw (os_error ''Unexpected token'' None True)) (JObj []) warm_dashboard)))) = 0"
proof -
  have sev: "e_severity (normalizeError example_host
               (Raw (os_error ''Unexpected token'' None True)) (JObj [])) = MEDIUM"
    by (simp add: os_error_def new_DashboardError_def)
  have ty: "e_type (normalizeError example_host
               (Raw (os_error ''Unexpected token'' None True)) (JObj [])) = DATA"
    by (simp add: os_error_def new_DashboardError_def)
  have size: "stats_size (getCacheStats (systemInfo warm_dashboard)) = 2"
    by (simp add: warm_dashboard_def getCacheStats_def setCache_def new_SystemInfo_def)
  show ?thesis
    using sev ty size data_error_clears_cache [OF sev ty, of warm_dashboard]
    by simp
qed

subsection \<open>The collectors\<close>

lemma readCache_eq:
  "readCache key now si =
     (case map_of (cache si) key of
        None \<Rightarrow> (None, si)
      | Some c \<Rightarrow>
          if now - timestamp c < cacheTimeout si then (Some (Inr (data c)), si)
          else (None, si\<lparr>cache := AList.delete key (cache si)\<rparr>))"
  by (simp add: readCache_def isInCache_def cachedData_def Let_def split: option.split)

lemma getCPUInfo_collector:
  "getCPUInfo now q_load q_cpu stored si =
     collector ''cpu'' safe_cpu now (cpu_answer q_load q_cpu) stored si"
  by (simp add: getCPUInfo_def collector_def cpu_answer_def safe_cpu_def Let_def
        split: prod.split option.split sum.split)

lemma getMemoryInfo_collector:
  "getMemoryInfo now q stored si =
     collector ''memory'' safe_memory now (map_sum id memoryResult q) stored si"
  by (simp add: getMemoryInfo_def collector_def safe_memory_def Let_def
        split: prod.split option.split sum.split)

lemma getDiskInfo_collector:
  "getDiskInfo now q stored si =
     collector ''disk'' (DiskData []) now (map_sum id diskResult q) stored si"
  by (simp add: getDiskInfo_def collector_def Let_def
        split: prod.split option.split sum.split)

lemma getNetworkInfo_collector:
  "getNetworkInfo now q stored si =
     collector ''network'' (NetworkData []) now (map_sum id networkResult q) stored si"
  by (simp add: getNetworkInfo_def collector_def Let_def
        split: prod.split option.split sum.split)

lemma collector_fulfils: "\<exists>r. fst (collector key safe now answer stored si) = Inr r"
  by (simp add: collector_def readCache_eq split: option.split sum.split)

lemma getCPUInfo_fulfils: "\<exists>r. fst (getCPUInfo now q_load q_cpu stored si) = Inr r"
  unfolding getCPUInfo_collector by (rule collector_fulfils)

lemma getMemoryInfo_fulfils: "\<exists>r. fst (getMemoryInfo now q stored si) = Inr r"
  unfolding getMemoryInfo_collector by (rule collector_fulfils)

lemma getDiskInfo_fulfils: "\<exists>r. fst (getDiskInfo now q stored si) = Inr r"
  unfolding getDiskInfo_collector by (rule collector_fulfils)

lemma getNetworkInfo_fulfils: "\<exists>r. fst (getNetworkInfo now q stored si) = Inr r"
  unfolding getNetworkInfo_collector by (rule collector_fulfils)

lemma collector_cacheTimeout:
  "cacheTimeout (snd (collector key safe now answer stored si)) = cacheTimeout si"
  by (simp add: collector_def readCache_eq setCache_def split: option.split sum.split)

lemma collector_other_key:
  "k \<noteq> key \<Longrightarrow>
     map_of (cache (snd (collector key safe now answer stored si))) k = map_of (cache si) k"
  by (simp add: collector_def readCache_eq setCache_def update_conv' delete_conv'
        split: option.split sum.split)

lemma collector_distinct:
  "distinct (map fst (cache si)) \<Longrightarrow>
     distinct (map fst (cache (snd (collector key safe now answer stored si))))"
  by (simp add: collector_def readCache_eq setCache_def distinct_update distinct_delete
        split: option.split sum.split)

lemma collector_own_key:
  assumes "map_of (cache si) key = map_of (cache si') key"
    and "cacheTimeout si = cacheTimeout si'"
  shows "fst (collector key safe now answer stored si) =
           fst (collector key safe now answer stored si')
       \<and> map_of (cache (snd (collector key safe now answer stored si))) key =
           map_of (cache (snd (collector key safe now answer stored si'))) key"
  using assms
  by (simp add: collector_def readCache_eq setCache_def update_conv' delete_conv'
        split: option.split sum.split)

lemma collector_miss_fails:
  "fst (readCache key now si) = None \<Longrightarrow>
     collector key safe now (Inl error) stored si = (Inr safe, snd (readCache key now si))"
  by (cases "readCache key now si") (simp add: collector_def)

lemma collector_miss_succeeds:
  "fst (readCache key now si) = None \<Longrightarrow>
     collector key safe now (Inr result) stored si =
       (Inr result, setCache key result stored (snd (readCache key now si)))"
  by (cases "readCache key now si") (simp add: collector_def)

lemma readCache_miss_absent:
  "fst (readCache key now si) = None \<Longrightarrow> map_of (cache (snd (readCache key now si))) key = None"
  by (cases "map_of (cache si) key") (auto simp: readCache_eq delete_conv' split: if_splits)

subsection \<open>The sweep\<close>

lemma clearExpired_loop_filter:
  "clearExpired_loop now ttl es c =
     filter (\<lambda>(k, v). \<not> (\<exists>w. (k, w) \<in> set es \<and> now - timestamp w \<ge> ttl)) c"
proof (induction es arbitrary: c)
  case Nil
  show ?case by simp
next
  case (Cons e es)
  obtain key v where e: "e = (key, v)" by (cases e)
  show ?case
    by (auto simp: e Cons AList.delete_eq intro!: filter_cong)
qed

lemma map_of_filter_keys:
  "map_of (filter (\<lambda>(k, v). P k) c) k = (if P k then map_of c k else None)"
  by (induction c) auto

lemma clearExpired_map_of:
  assumes "distinct (map fst c)"
  shows "map_of (clearExpired_loop now ttl c c) k =
           (case map_of c k of
              None \<Rightarrow> None
            | Some v \<Rightarrow> if now - timestamp v \<ge> ttl then None else Some v)"
proof -
  define P where "P = (\<lambda>k. \<not> (\<exists>w. (k, w) \<in> set c \<and> now - timestamp w \<ge> ttl))"
  have P: "P k \<longleftrightarrow> \<not> (\<exists>w. map_of c k = Some w \<and> now - timestamp w \<ge> ttl)"
    using assms by (simp add: P_def)
  have "clearExpired_loop now ttl c c = filter (\<lambda>(k, v). P k) c"
    by (simp only: clearExpired_loop_filter P_def)
  then have "map_of (clearExpired_loop now ttl c c) k = (if P k then map_of c k else None)"
    by (simp only: map_of_filter_keys)
  then show ?thesis
    by (cases "map_of c k") (auto simp: P)
qed

lemma clearExpiredCache_map_of:
  "distinct (map fst (cache si)) \<Longrightarrow>
     map_of (cache (clearExpiredCache now si)) k =
       (case map_of (cache si) k of
          None \<Rightarrow> None
        | Some v \<Rightarrow> if now - timestamp v \<ge> cacheTimeout si then None else Some v)"
  by (simp add: clearExpiredCache_def clearExpired_map_of)


subsection \<open>The cycle\<close>

lemma safeGetCPUInfo_eq:
  "safeGetCPUInfo h now q_load q_cpu stored d =
     (Some (projr (fst (getCPUInfo now q_load q_cpu stored (systemInfo d)))),
      d\<lparr>systemInfo := snd (getCPUInfo now q_load q_cpu stored (systemInfo d))\<rparr>)"
proof -
  obtain r where "fst (getCPUInfo now q_load q_cpu stored (systemInfo d)) = Inr r"
    using getCPUInfo_fulfils by blast
  then show ?thesis
    by (cases "getCPUInfo now q_load q_cpu stored (systemInfo d)") (simp add: safeGetCPUInfo_def)
qed

lemma safeGetMemoryInfo_eq:
  "safeGetMemoryInfo h now q stored d =
     (Some (projr (fst (getMemoryInfo now q stored (systemInfo d)))),
      d\<lparr>systemInfo := snd (getMemoryInfo now q stored (systemInfo d))\<rparr>)"
proof -
  obtain r where "fst (getMemoryInfo now q stored (systemInfo d)) = Inr r"
    using getMemoryInfo_fulfils by blast
  then show ?thesis
    by (cases "getMemoryInfo now q stored (systemInfo d)") (simp add: safeGetMemoryInfo_def)
qed

lemma safeGetDiskInfo_eq:
  "safeGetDiskInfo h now q stored d =
     (projr (fst (getDiskInfo now q stored (systemInfo d))),
      d\<lparr>systemInfo := snd (getDiskInfo now q stored (systemInfo d))\<rparr>)"
proof -
  obtain r where "fst (getDiskInfo now q stored (systemInfo d)) = Inr r"
    using getDiskInfo_fulfils by blast
  then show ?thesis
    by (cases "getDiskInfo now q stored (systemInfo d)") (simp add: safeGetDiskInfo_def)
qed

lemma safeGetNetworkInfo_eq:
  "safeGetNetworkInfo h now q stored d =
     (projr (fst (getNetworkInfo now q stored (systemInfo d))),
      d\<lparr>systemInfo := snd (getNetworkInfo now q stored (systemInfo d))\<rparr>)"
proof -
  obtain r where "fst (getNetworkInfo now q stored (systemInfo d)) = Inr r"
    using getNetworkInfo_fulfils by blast
  then show ?thesis
    by (cases "getNetworkInfo now q stored (systemInfo d)") (simp add: safeGetNetworkInfo_def)
qed

lemma updateDisplay_eq:
  "updateDisplay env d =
     (let g1 = getCPUInfo (cpu_now env) (os_currentLoad env) (os_cpu env) (cpu_stored env)
                 (systemInfo d);
          g2 = getMemoryInfo (memory_now env) (os_mem env) (memory_stored env) (snd g1);
          g3 = getDiskInfo (disk_now env) (os_fsSize env) (disk_stored env) (snd g2);
          g4 = getNetworkInfo (network_now env) (os_networkStats env) (network_stored env) (snd g3)
      in (\<lparr>cpuInfo = Some (projr (fst g1)), memoryInfo = Some (projr (fst g2)),
           diskInfo = projr (fst g3), networkInfo = projr (fst g4)\<rparr>,
          d\<lparr>systemInfo := clearExpiredCache (sweep_now env) (snd g4),
            updateCount := updateCount d + 1\<rparr>))"
  by (simp add: updateDisplay_def Let_def safeGetCPUInfo_eq safeGetMemoryInfo_eq
        safeGetDiskInfo_eq safeGetNetworkInfo_eq)

lemma updateDisplay_frame:
  "errorHandler (snd (updateDisplay env d)) = errorHandler d"
  "isRunning (snd (updateDisplay env d)) = isRunning d"
  "loggingEnabled (snd (updateDisplay env d)) = loggingEnabled d"
  "degradedMode (snd (updateDisplay env d)) = degradedMode d"
  "updateInterval (snd (updateDisplay env d)) = updateInterval d"
  "performanceStats (snd (updateDisplay env d)) = performanceStats d"
  "config (snd (updateDisplay env d)) = config d"
  "exitScheduled (snd (updateDisplay env d)) = exitScheduled d"
  "updateCount (snd (updateDisplay env d)) = updateCount d + 1"
  by (simp_all add: updateDisplay_eq Let_def)

lemma startUpdateLoop_timer:
  "updateInterval (startUpdateLoop env d) =
     Some \<lparr>period = config_updateInterval (config d), callback = UpdateLoopTick\<rparr>"
  by (simp add: startUpdateLoop_def split_beta Let_def updateDisplay_frame)

lemma startUpdateLoop_frame:
  "isRunning (startUpdateLoop env d) = isRunning d"
  "degradedMode (startUpdateLoop env d) = degradedMode d"
  "config (startUpdateLoop env d) = config d"
  by (simp_all add: startUpdateLoop_def split_beta Let_def updateDisplay_frame)

subsection \<open>What a collector does when the OS query fails\<close>

text \<open>
  C4, as stated, fails: with an empty cache and the disk query rejected with
  \<^verbatim>\<open>EACCES\<close>, \<^verbatim>\<open>getDiskInfo\<close> raises nothing: it fulfils with an empty
  reading.
\<close>

theorem collector_raises_counterexample:
  "getDiskInfo 0 (Inl permission_denied) 0 new_SystemInfo = (Inr (DiskData []), new_SystemInfo)"
  by (simp add: getDiskInfo_def readCache_eq new_SystemInfo_def)

text \<open>
  C4, amended. No collector ever rejects, whatever the OS answers. When the cache
  misses and the OS query is rejected, the collector fulfils with its safe default
  (a zeroed reading for CPU and memory, an empty list for disk and network) and leaves
  the cache as the read left it. With no disks or no interfaces the reading is the
  empty list.
\<close>

theorem collectors_never_raise:
  "(\<exists>r. fst (getCPUInfo now q_load q_cpu stored si) = Inr r)
   \<and> (\<exists>r. fst (getMemoryInfo now q_mem stored si) = Inr r)
   \<and> (\<exists>r. fst (getDiskInfo now q_fs stored si) = Inr r)
   \<and> (\<exists>r. fst (getNetworkInfo now q_net stored si) = Inr r)
   \<and> (fst (readCache ''cpu'' now si) = None \<longrightarrow>
        getCPUInfo now (Inl error) q_cpu stored si = (Inr safe_cpu, snd (readCache ''cpu'' now si))
        \<and> getCPUInfo now (Inr cpuLoad) (Inl error) stored si
            = (Inr safe_cpu, snd (readCache ''cpu'' now si)))
   \<and> (fst (readCache ''memory'' now si) = None \<longrightarrow>
        getMemoryInfo now (Inl error) stored si
          = (Inr safe_memory, snd (readCache ''memory'' now si)))
   \<and> (fst (readCache ''disk'' now si) = None \<longrightarrow>
        getDiskInfo now (Inl error) stored si = (Inr (DiskData []), snd (readCache ''disk'' now si))
        \<and> fst (getDiskInfo now (Inr []) stored si) = Inr (DiskData []))
   \<and> (fst (readCache ''network'' now si) = None \<longrightarrow>
        getNetworkInfo now (Inl error) stored si
          = (Inr (NetworkData []), snd (readCache ''network'' now si))
        \<and> fst (getNetworkInfo now (Inr []) stored si) = Inr (NetworkData []))"
  by (intro conjI impI getCPUInfo_fulfils getMemoryInfo_fulfils getDiskInfo_fulfils
        getNetworkInfo_fulfils)
     (simp_all add: getCPUInfo_collector getMemoryInfo_collector
        getDiskInfo_collector getNetworkInfo_collector cpu_answer_def
        collector_miss_fails collector_miss_succeeds diskResult_def networkResult_def)

theorem collectors_never_raise_witness:
  "fst (readCache ''cpu'' 0 new_SystemInfo) = None
   \<and> fst (readCache ''memory'' 0 new_SystemInfo) = None
   \<and> fst (readCache ''disk'' 0 new_SystemInfo) = None
   \<and> fst (readCache ''network'' 0 new_SystemInfo) = None
   \<and> getCPUInfo 0 (Inl permission_denied) (os_cpu example_env) 1 new_SystemInfo
       = (Inr safe_cpu, new_SystemInfo)
   \<and> getMemoryInfo 0 (Inl permission_denied) 1 new_SystemInfo = (Inr safe_memory, new_SystemInfo)
   \<and> getDiskInfo 0 (Inl permission_denied) 1 new_SystemInfo = (Inr (DiskData []), new_SystemInfo)
   \<and> fst (getDiskInfo 0 (Inr []) 1 new_SystemInfo) = Inr (DiskData [])
   \<and> getNetworkInfo 0 (Inl permission_denied) 1 new_SystemInfo
       = (Inr (NetworkData []), new_SystemInfo)
   \<and> fst (getNetworkInfo 0 (Inr []) 1 new_SystemInfo) = Inr (NetworkData [])"
proof -
  have miss: "\<And>key. readCache key 0 new_SystemInfo = (None, new_SystemInfo)"
    by (simp add: readCache_eq new_SystemInfo_def)
  show ?thesis
    using collectors_never_raise [of 0 "Inl permission_denied" "os_cpu example_env" 1
            new_SystemInfo "Inl permission_denied" "Inl permission_denied"
            "Inl permission_denied" permission_denied]
    by (simp add: miss)
qed

subsection \<open>Escalation of a HIGH error\<close>

text \<open>
  C3, as stated, fails: a HIGH error handled while no timer is armed (a screen error
  before the update loop starts) sets \<open>degradedMode\<close> and leaves the cadence alone;
  the loop then starts at the configured 2000 ms.
\<close>

theorem high_error_doubles_cadence_counterexample:
  "degradedMode (new_CompleteDashboard 0) = False
   \<and> degradedMode (snd (handleError example_host screen_error (JObj []) (new_CompleteDashboard 0)))
       = True
   \<and> updateInterval (snd (handleError example_host screen_error (JObj []) (new_CompleteDashboard 0)))
       = None
   \<and> updateInterval (startUpdateLoop example_env
        (snd (handleError example_host screen_error (JObj []) (new_CompleteDashboard 0))))
       = Some \<lparr>period = 2000, callback = UpdateLoopTick\<rparr>"
proof -
  have sev: "e_severity (normalizeError example_host screen_error (JObj [])) = HIGH"
    by (simp add: screen_error_def new_DashboardError_def)
  have d: "degradedMode (snd (handleError example_host screen_error (JObj []) (new_CompleteDashboard 0)))"
    by (simp add: handleError_HIGH [OF sev] temporarilyReduce_fields)
  have t: "updateInterval (snd (handleError example_host screen_error (JObj []) (new_CompleteDashboard 0)))
             = None"
    by (simp add: handleError_HIGH [OF sev] temporarilyReduce_timer new_CompleteDashboard_def)
  have c: "config (snd (handleError example_host screen_error (JObj []) (new_CompleteDashboard 0)))
             = config (new_CompleteDashboard 0)"
    by (simp add: handleError_HIGH [OF sev] temporarilyReduce_fields)
  show ?thesis
    using d t by (simp add: startUpdateLoop_timer c) (simp add: new_CompleteDashboard_def)
qed

text \<open>
  C3, amended. Handling a HIGH error sets \<open>degradedMode\<close> to true and leaves the
  configuration alone. If a timer is armed it is replaced by a timer of 4000 ms, twice
  the configured 2000 ms; if none is armed, none is armed afterwards. A second HIGH
  error leaves the timer's period as the first left it: the period does not compound.
\<close>

theorem high_error_escalation:
  assumes "e_severity (normalizeError h error ctx) = HIGH"
  shows "degradedMode (snd (handleError h error ctx d)) = True
     \<and> config (snd (handleError h error ctx d)) = config d
     \<and> (updateInterval d = None \<longrightarrow> updateInterval (snd (handleError h error ctx d)) = None)
     \<and> (updateInterval d \<noteq> None \<longrightarrow>
          updateInterval (snd (handleError h error ctx d))
            = Some \<lparr>period = 4000, callback = ReducedFrequencyTick\<rparr>)
     \<and> (e_severity (normalizeError h2 error2 ctx2) = HIGH \<longrightarrow>
          updateInterval (snd (handleError h2 error2 ctx2 (snd (handleError h error ctx d))))
            = updateInterval (snd (handleError h error ctx d))
          \<and> degradedMode (snd (handleError h2 error2 ctx2 (snd (handleError h error ctx d))))
              = True)
     \<and> 4000 = 2 * config_updateInterval (config (new_CompleteDashboard t0))"
  using assms
  by (auto simp: handleError_HIGH temporarilyReduce_fields temporarilyReduce_timer
        new_CompleteDashboard_def split: option.split)

theorem high_error_escalation_witness:
  "e_severity (normalizeError example_host screen_error (JObj [])) = HIGH
   \<and> e_severity (normalizeError example_host (Raw permission_denied) (JObj [])) = HIGH
   \<and> degradedMode running_dashboard = False
   \<and> updateInterval running_dashboard = Some \<lparr>period = 2000, callback = UpdateLoopTick\<rparr>
   \<and> degradedMode (snd (handleError example_host screen_error (JObj []) running_dashboard)) = True
   \<and> updateInterval (snd (handleError example_host screen_error (JObj []) running_dashboard))
       = Some \<lparr>period = 4000, callback = ReducedFrequencyTick\<rparr>
   \<and> updateInterval (snd (handleError example_host (Raw permission_denied) (JObj [])
        (snd (handleError example_host screen_error (JObj []) running_dashboard))))
       = Some \<lparr>period = 4000, callback = ReducedFrequencyTick\<rparr>"
proof -
  have sev: "e_severity (normalizeError example_host screen_error (JObj [])) = HIGH"
    by (simp add: screen_error_def new_DashboardError_def)
  have sev2: "e_severity (normalizeError example_host (Raw permission_denied) (JObj [])) = HIGH"
    by (simp add: permission_denied_def os_error_def new_DashboardError_def)
  have t: "updateInterval running_dashboard = Some \<lparr>period = 2000, callback = UpdateLoopTick\<rparr>"
    by (simp add: running_dashboard_def startUpdateLoop_timer new_CompleteDashboard_def)
  have g: "degradedMode running_dashboard = False"
    by (simp add: running_dashboard_def startUpdateLoop_frame new_CompleteDashboard_def)
  show ?thesis
    using sev sev2 t g
      high_error_escalation [OF sev, of running_dashboard example_host "Raw permission_denied" "JObj []"]
    by simp
qed

subsection \<open>Overlap of refresh cycles\<close>


lemma step_TimerFires_running:
  "isRunning (dashboard w) \<Longrightarrow> updateInterval (dashboard w) = Some t \<Longrightarrow>
     step (TimerFires now) w =
       w\<lparr>pending := pending w @ [\<lparr>cycle_startTime = now, cycle_callback = callback t\<rparr>]\<rparr>"
  by simp





subsection \<open>Isolation of a failing source\<close>

lemma collector_step:
  assumes agree: "\<forall>k. k \<noteq> x \<longrightarrow> map_of (cache si) k = map_of (cache si') k"
    and ttl: "cacheTimeout si = cacheTimeout si'"
    and same: "key \<noteq> x \<Longrightarrow> now = now' \<and> a = a' \<and> stored = stored'"
  shows "key \<noteq> x \<longrightarrow>
           fst (collector key safe now a stored si) = fst (collector key safe now' a' stored' si')"
    and "\<forall>k. k \<noteq> x \<longrightarrow>
           map_of (cache (snd (collector key safe now a stored si))) k =
           map_of (cache (snd (collector key safe now' a' stored' si'))) k"
    and "cacheTimeout (snd (collector key safe now a stored si)) =
           cacheTimeout (snd (collector key safe now' a' stored' si'))"
proof -
  show "cacheTimeout (snd (collector key safe now a stored si)) =
          cacheTimeout (snd (collector key safe now' a' stored' si'))"
    by (simp add: collector_cacheTimeout ttl)
  show "key \<noteq> x \<longrightarrow>
          fst (collector key safe now a stored si) = fst (collector key safe now' a' stored' si')"
    using collector_own_key [of si key si' safe now a stored] agree ttl same by auto
  show "\<forall>k. k \<noteq> x \<longrightarrow>
          map_of (cache (snd (collector key safe now a stored si))) k =
          map_of (cache (snd (collector key safe now' a' stored' si'))) k"
  proof (intro allI impI)
    fix k assume k: "k \<noteq> x"
    show "map_of (cache (snd (collector key safe now a stored si))) k =
          map_of (cache (snd (collector key safe now' a' stored' si'))) k"
    proof (cases "k = key")
      case True
      with k have "key \<noteq> x" by simp
      with same agree ttl True show ?thesis
        using collector_own_key [of si key si' safe now a stored] by auto
    next
      case False
      then show ?thesis using agree k by (simp add: collector_other_key)
    qed
  qed
qed

lemma collector_step_all:
  assumes "\<forall>k. k \<noteq> x \<longrightarrow> map_of (cache si) k = map_of (cache si') k"
    and "cacheTimeout si = cacheTimeout si'"
    and "key \<noteq> x \<Longrightarrow> now = now' \<and> a = a' \<and> stored = stored'"
  shows "(key \<noteq> x \<longrightarrow>
           fst (collector key safe now a stored si) = fst (collector key safe now' a' stored' si'))
       \<and> (\<forall>k. k \<noteq> x \<longrightarrow>
           map_of (cache (snd (collector key safe now a stored si))) k =
           map_of (cache (snd (collector key safe now' a' stored' si'))) k)
       \<and> cacheTimeout (snd (collector key safe now a stored si)) =
           cacheTimeout (snd (collector key safe now' a' stored' si'))"
  using collector_step [OF assms] by blast

lemma sweep_agree:
  assumes "distinct (map fst (cache si))" and "distinct (map fst (cache si'))"
    and "\<forall>k. k \<noteq> x \<longrightarrow> map_of (cache si) k = map_of (cache si') k"
    and "cacheTimeout si = cacheTimeout si'"
  shows "\<forall>k. k \<noteq> x \<longrightarrow>
           map_of (cache (clearExpiredCache now si)) k = map_of (cache (clearExpiredCache now si')) k"
  using assms by (simp add: clearExpiredCache_map_of cong: option.case_cong)

text \<open>The cache after the four collectors of a cycle, and their four answers.\<close>

lemma updateDisplay_collectors:
  "updateDisplay env d =
     (let c1 = collector ''cpu'' safe_cpu (cpu_now env)
                 (cpu_answer (os_currentLoad env) (os_cpu env)) (cpu_stored env) (systemInfo d);
          c2 = collector ''memory'' safe_memory (memory_now env)
                 (map_sum id memoryResult (os_mem env)) (memory_stored env) (snd c1);
          c3 = collector ''disk'' (DiskData []) (disk_now env)
                 (map_sum id diskResult (os_fsSize env)) (disk_stored env) (snd c2);
          c4 = collector ''network'' (NetworkData []) (network_now env)
                 (map_sum id networkResult (os_networkStats env)) (network_stored env) (snd c3)
      in (\<lparr>cpuInfo = Some (projr (fst c1)), memoryInfo = Some (projr (fst c2)),
           diskInfo = projr (fst c3), networkInfo = projr (fst c4)\<rparr>,
          d\<lparr>systemInfo := clearExpiredCache (sweep_now env) (snd c4),
            updateCount := updateCount d + 1\<rparr>))"
  by (simp add: updateDisplay_eq Let_def getCPUInfo_collector getMemoryInfo_collector
        getDiskInfo_collector getNetworkInfo_collector)

lemma cycle_agree:
  assumes dist: "distinct (map fst (cache (systemInfo d)))"
    and cpu: "x \<noteq> ''cpu'' \<Longrightarrow>
               cpu_now env = cpu_now env' \<and> os_currentLoad env = os_currentLoad env'
               \<and> os_cpu env = os_cpu env' \<and> cpu_stored env = cpu_stored env'"
    and mem: "x \<noteq> ''memory'' \<Longrightarrow>
               memory_now env = memory_now env' \<and> os_mem env = os_mem env'
               \<and> memory_stored env = memory_stored env'"
    and disk: "x \<noteq> ''disk'' \<Longrightarrow>
               disk_now env = disk_now env' \<and> os_fsSize env = os_fsSize env'
               \<and> disk_stored env = disk_stored env'"
    and net: "x \<noteq> ''network'' \<Longrightarrow>
               network_now env = network_now env' \<and> os_networkStats env = os_networkStats env'
               \<and> network_stored env = network_stored env'"
    and sweep: "sweep_now env = sweep_now env'"
  shows "\<forall>k. k \<noteq> x \<longrightarrow>
           result_for k (fst (updateDisplay env d)) = result_for k (fst (updateDisplay env' d))"
    and "\<forall>k. k \<noteq> x \<longrightarrow>
           map_of (cache (systemInfo (snd (updateDisplay env d)))) k =
           map_of (cache (systemInfo (snd (updateDisplay env' d)))) k"
proof -
  define c1 where "c1 = collector ''cpu'' safe_cpu (cpu_now env)
                 (cpu_answer (os_currentLoad env) (os_cpu env)) (cpu_stored env) (systemInfo d)"
  define c2 where "c2 = collector ''memory'' safe_memory (memory_now env)
                 (map_sum id memoryResult (os_mem env)) (memory_stored env) (snd c1)"
  define c3 where "c3 = collector ''disk'' (DiskData []) (disk_now env)
                 (map_sum id diskResult (os_fsSize env)) (disk_stored env) (snd c2)"
  define c4 where "c4 = collector ''network'' (NetworkData []) (network_now env)
                 (map_sum id networkResult (os_networkStats env)) (network_stored env) (snd c3)"
  define c1' where "c1' = collector ''cpu'' safe_cpu (cpu_now env')
                 (cpu_answer (os_currentLoad env') (os_cpu env')) (cpu_stored env') (systemInfo d)"
  define c2' where "c2' = collector ''memory'' safe_memory (memory_now env')
                 (map_sum id memoryResult (os_mem env')) (memory_stored env') (snd c1')"
  define c3' where "c3' = collector ''disk'' (DiskData []) (disk_now env')
                 (map_sum id diskResult (os_fsSize env')) (disk_stored env') (snd c2')"
  define c4' where "c4' = collector ''network'' (NetworkData []) (network_now env')
                 (map_sum id networkResult (os_networkStats env')) (network_stored env') (snd c3')"
  have u: "updateDisplay env d =
            (\<lparr>cpuInfo = Some (projr (fst c1)), memoryInfo = Some (projr (fst c2)),
              diskInfo = projr (fst c3), networkInfo = projr (fst c4)\<rparr>,
             d\<lparr>systemInfo := clearExpiredCache (sweep_now env) (snd c4),
               updateCount := updateCount d + 1\<rparr>)"
    by (simp add: updateDisplay_collectors Let_def c1_def c2_def c3_def c4_def)
  have u': "updateDisplay env' d =
            (\<lparr>cpuInfo = Some (projr (fst c1')), memoryInfo = Some (projr (fst c2')),
              diskInfo = projr (fst c3'), networkInfo = projr (fst c4')\<rparr>,
             d\<lparr>systemInfo := clearExpiredCache (sweep_now env') (snd c4'),
               updateCount := updateCount d + 1\<rparr>)"
    by (simp add: updateDisplay_collectors Let_def c1'_def c2'_def c3'_def c4'_def)
  have "(''cpu'' \<noteq> x \<longrightarrow> fst c1 = fst c1')
      \<and> (\<forall>k. k \<noteq> x \<longrightarrow> map_of (cache (snd c1)) k = map_of (cache (snd c1')) k)
      \<and> cacheTimeout (snd c1) = cacheTimeout (snd c1')"
    unfolding c1_def c1'_def
  proof (rule collector_step_all)
    show "''cpu'' \<noteq> x \<Longrightarrow> cpu_now env = cpu_now env' \<and> cpu_answer (os_currentLoad env) (os_cpu env) = cpu_answer (os_currentLoad env') (os_cpu env') \<and> cpu_stored env = cpu_stored env'"
      using cpu by simp
  qed (simp_all)
  then have s1: "x \<noteq> ''cpu'' \<longrightarrow> fst c1 = fst c1'"
    and a1: "\<forall>k. k \<noteq> x \<longrightarrow> map_of (cache (snd c1)) k = map_of (cache (snd c1')) k"
    and t1: "cacheTimeout (snd c1) = cacheTimeout (snd c1')"
    by blast+
  have "(''memory'' \<noteq> x \<longrightarrow> fst c2 = fst c2')
      \<and> (\<forall>k. k \<noteq> x \<longrightarrow> map_of (cache (snd c2)) k = map_of (cache (snd c2')) k)
      \<and> cacheTimeout (snd c2) = cacheTimeout (snd c2')"
    unfolding c2_def c2'_def
  proof (rule collector_step_all)
    show "''memory'' \<noteq> x \<Longrightarrow> memory_now env = memory_now env' \<and> map_sum id memoryResult (os_mem env) = map_sum id memoryResult (os_mem env') \<and> memory_stored env = memory_stored env'"
      using mem by simp
  qed (use a1 t1 in simp_all)
  then have s2: "x \<noteq> ''memory'' \<longrightarrow> fst c2 = fst c2'"
    and a2: "\<forall>k. k \<noteq> x \<longrightarrow> map_of (cache (snd c2)) k = map_of (cache (snd c2')) k"
    and t2: "cacheTimeout (snd c2) = cacheTimeout (snd c2')"
    by blast+
  have "(''disk'' \<noteq> x \<longrightarrow> fst c3 = fst c3')
      \<and> (\<forall>k. k \<noteq> x \<longrightarrow> map_of (cache (snd c3)) k = map_of (cache (snd c3')) k)
      \<and> cacheTimeout (snd c3) = cacheTimeout (snd c3')"
    unfolding c3_def c3'_def
  proof (rule collector_step_all)
    show "''disk'' \<noteq> x \<Longrightarrow> disk_now env = disk_now env' \<and> map_sum id diskResult (os_fsSize env) = map_sum id diskResult (os_fsSize env') \<and> disk_stored env = disk_stored env'"
      using disk by simp
  qed (use a2 t2 in simp_all)
  then have s3: "x \<noteq> ''disk'' \<longrightarrow> fst c3 = fst c3'"
    and a3: "\<forall>k. k \<noteq> x \<longrightarrow> map_of (cache (snd c3)) k = map_of (cache (snd c3')) k"
    and t3: "cacheTimeout (snd c3) = cacheTimeout (snd c3')"
    by blast+
  have "(''network'' \<noteq> x \<longrightarrow> fst c4 = fst c4')
      \<and> (\<forall>k. k \<noteq> x \<longrightarrow> map_of (cache (snd c4)) k = map_of (cache (snd c4')) k)
      \<and> cacheTimeout (snd c4) = cacheTimeout (snd c4')"
    unfolding c4_def c4'_def
  proof (rule collector_step_all)
    show "''network'' \<noteq> x \<Longrightarrow> network_now env = network_now env' \<and> map_sum id networkResult (os_networkStats env) = map_sum id networkResult (os_networkStats env') \<and> network_stored env = network_stored env'"
      using net by simp
  qed (use a3 t3 in simp_all)
  then have s4: "x \<noteq> ''network'' \<longrightarrow> fst c4 = fst c4'"
    and a4: "\<forall>k. k \<noteq> x \<longrightarrow> map_of (cache (snd c4)) k = map_of (cache (snd c4')) k"
    and t4: "cacheTimeout (snd c4) = cacheTimeout (snd c4')"
    by blast+
  have d4: "distinct (map fst (cache (snd c4)))"
    unfolding c4_def c3_def c2_def c1_def by (intro collector_distinct dist)
  have d4': "distinct (map fst (cache (snd c4')))"
    unfolding c4'_def c3'_def c2'_def c1'_def by (intro collector_distinct dist)
  show "\<forall>k. k \<noteq> x \<longrightarrow>
           result_for k (fst (updateDisplay env d)) = result_for k (fst (updateDisplay env' d))"
    using s1 s2 s3 s4 by (simp add: u u' result_for_def)
  show "\<forall>k. k \<noteq> x \<longrightarrow>
           map_of (cache (systemInfo (snd (updateDisplay env d)))) k =
           map_of (cache (systemInfo (snd (updateDisplay env' d)))) k"
    using sweep_agree [OF d4 d4' a4 t4, of "sweep_now env"] sweep by (simp add: u u')
qed

lemma cycle_own:
  assumes dist: "distinct (map fst (cache (systemInfo d)))"
  shows "cpuInfo (fst (updateDisplay env d)) =
           Some (projr (fst (collector ''cpu'' safe_cpu (cpu_now env)
                   (cpu_answer (os_currentLoad env) (os_cpu env)) (cpu_stored env) (systemInfo d))))"
    and "map_of (cache (systemInfo (snd (updateDisplay env d)))) ''cpu'' =
           swept (sweep_now env) (cacheTimeout (systemInfo d))
             (map_of (cache (snd (collector ''cpu'' safe_cpu (cpu_now env)
                   (cpu_answer (os_currentLoad env) (os_cpu env)) (cpu_stored env) (systemInfo d))))
                ''cpu'')"
    and "memoryInfo (fst (updateDisplay env d)) =
           Some (projr (fst (collector ''memory'' safe_memory (memory_now env)
                   (map_sum id memoryResult (os_mem env)) (memory_stored env) (systemInfo d))))"
    and "map_of (cache (systemInfo (snd (updateDisplay env d)))) ''memory'' =
           swept (sweep_now env) (cacheTimeout (systemInfo d))
             (map_of (cache (snd (collector ''memory'' safe_memory (memory_now env)
                   (map_sum id memoryResult (os_mem env)) (memory_stored env) (systemInfo d))))
                ''memory'')"
    and "diskInfo (fst (updateDisplay env d)) =
           projr (fst (collector ''disk'' (DiskData []) (disk_now env)
                   (map_sum id diskResult (os_fsSize env)) (disk_stored env) (systemInfo d)))"
    and "map_of (cache (systemInfo (snd (updateDisplay env d)))) ''disk'' =
           swept (sweep_now env) (cacheTimeout (systemInfo d))
             (map_of (cache (snd (collector ''disk'' (DiskData []) (disk_now env)
                   (map_sum id diskResult (os_fsSize env)) (disk_stored env) (systemInfo d))))
                ''disk'')"
    and "networkInfo (fst (updateDisplay env d)) =
           projr (fst (collector ''network'' (NetworkData []) (network_now env)
                   (map_sum id networkResult (os_networkStats env)) (network_stored env)
                   (systemInfo d)))"
    and "map_of (cache (systemInfo (snd (updateDisplay env d)))) ''network'' =
           swept (sweep_now env) (cacheTimeout (systemInfo d))
             (map_of (cache (snd (collector ''network'' (NetworkData []) (network_now env)
                   (map_sum id networkResult (os_networkStats env)) (network_stored env)
                   (systemInfo d))))
                ''network'')"
proof -
  define c1 where "c1 = collector ''cpu'' safe_cpu (cpu_now env)
                 (cpu_answer (os_currentLoad env) (os_cpu env)) (cpu_stored env) (systemInfo d)"
  define c2 where "c2 = collector ''memory'' safe_memory (memory_now env)
                 (map_sum id memoryResult (os_mem env)) (memory_stored env) (snd c1)"
  define c3 where "c3 = collector ''disk'' (DiskData []) (disk_now env)
                 (map_sum id diskResult (os_fsSize env)) (disk_stored env) (snd c2)"
  define c4 where "c4 = collector ''network'' (NetworkData []) (network_now env)
                 (map_sum id networkResult (os_networkStats env)) (network_stored env) (snd c3)"
  have u: "updateDisplay env d =
            (\<lparr>cpuInfo = Some (projr (fst c1)), memoryInfo = Some (projr (fst c2)),
              diskInfo = projr (fst c3), networkInfo = projr (fst c4)\<rparr>,
             d\<lparr>systemInfo := clearExpiredCache (sweep_now env) (snd c4),
               updateCount := updateCount d + 1\<rparr>)"
    by (simp add: updateDisplay_collectors Let_def c1_def c2_def c3_def c4_def)
  have t1: "cacheTimeout (snd c1) = cacheTimeout (systemInfo d)"
    by (simp add: c1_def collector_cacheTimeout)
  have t2: "cacheTimeout (snd c2) = cacheTimeout (systemInfo d)"
    by (simp add: c2_def collector_cacheTimeout t1)
  have t3: "cacheTimeout (snd c3) = cacheTimeout (systemInfo d)"
    by (simp add: c3_def collector_cacheTimeout t2)
  have t4: "cacheTimeout (snd c4) = cacheTimeout (systemInfo d)"
    by (simp add: c4_def collector_cacheTimeout t3)
  have d4: "distinct (map fst (cache (snd c4)))"
    unfolding c4_def c3_def c2_def c1_def by (intro collector_distinct dist)
  have final: "map_of (cache (systemInfo (snd (updateDisplay env d)))) k =
                 swept (sweep_now env) (cacheTimeout (systemInfo d)) (map_of (cache (snd c4)) k)"
    for k
    by (simp add: u clearExpiredCache_map_of [OF d4] t4 swept_def cong: option.case_cong)
  have o1: "k \<noteq> ''cpu'' \<Longrightarrow> map_of (cache (snd c1)) k = map_of (cache (systemInfo d)) k" for k
    by (simp add: c1_def collector_other_key)
  have o2: "k \<noteq> ''memory'' \<Longrightarrow> map_of (cache (snd c2)) k = map_of (cache (snd c1)) k" for k
    by (simp add: c2_def collector_other_key)
  have o3: "k \<noteq> ''disk'' \<Longrightarrow> map_of (cache (snd c3)) k = map_of (cache (snd c2)) k" for k
    by (simp add: c3_def collector_other_key)
  have o4: "k \<noteq> ''network'' \<Longrightarrow> map_of (cache (snd c4)) k = map_of (cache (snd c3)) k" for k
    by (simp add: c4_def collector_other_key)
  show "cpuInfo (fst (updateDisplay env d)) = Some (projr (fst (collector ''cpu'' safe_cpu (cpu_now env)
                   (cpu_answer (os_currentLoad env) (os_cpu env)) (cpu_stored env) (systemInfo d))))"
    by (simp add: u c1_def)
  show "map_of (cache (systemInfo (snd (updateDisplay env d)))) ''cpu'' =
           swept (sweep_now env) (cacheTimeout (systemInfo d))
             (map_of (cache (snd (collector ''cpu'' safe_cpu (cpu_now env)
                   (cpu_answer (os_currentLoad env) (os_cpu env)) (cpu_stored env) (systemInfo d))))
                ''cpu'')"
    by (simp add: final o4 o3 o2) (simp add: c1_def)
  have m: "fst c2 = fst (collector ''memory'' safe_memory (memory_now env)
                   (map_sum id memoryResult (os_mem env)) (memory_stored env) (systemInfo d))
         \<and> map_of (cache (snd c2)) ''memory'' =
             map_of (cache (snd (collector ''memory'' safe_memory (memory_now env)
                   (map_sum id memoryResult (os_mem env)) (memory_stored env) (systemInfo d))))
               ''memory''"
    unfolding c2_def by (rule collector_own_key) (simp_all add: o1 t1)
  show "memoryInfo (fst (updateDisplay env d)) =
           Some (projr (fst (collector ''memory'' safe_memory (memory_now env)
                   (map_sum id memoryResult (os_mem env)) (memory_stored env) (systemInfo d))))"
    using m by (simp add: u)
  show "map_of (cache (systemInfo (snd (updateDisplay env d)))) ''memory'' =
           swept (sweep_now env) (cacheTimeout (systemInfo d))
             (map_of (cache (snd (collector ''memory'' safe_memory (memory_now env)
                   (map_sum id memoryResult (os_mem env)) (memory_stored env) (systemInfo d))))
                ''memory'')"
    using m by (simp add: final o4 o3)
  have k: "fst c3 = fst (collector ''disk'' (DiskData []) (disk_now env)
                   (map_sum id diskResult (os_fsSize env)) (disk_stored env) (systemInfo d))
         \<and> map_of (cache (snd c3)) ''disk'' =
             map_of (cache (snd (collector ''disk'' (DiskData []) (disk_now env)
                   (map_sum id diskResult (os_fsSize env)) (disk_stored env) (systemInfo d))))
               ''disk''"
    unfolding c3_def by (rule collector_own_key) (simp_all add: o1 o2 t2)
  show "diskInfo (fst (updateDisplay env d)) =
           projr (fst (collector ''disk'' (DiskData []) (disk_now env)
                   (map_sum id diskResult (os_fsSize env)) (disk_stored env) (systemInfo d)))"
    using k by (simp add: u)
  show "map_of (cache (systemInfo (snd (updateDisplay env d)))) ''disk'' =
           swept (sweep_now env) (cacheTimeout (systemInfo d))
             (map_of (cache (snd (collector ''disk'' (DiskData []) (disk_now env)
                   (map_sum id diskResult (os_fsSize env)) (disk_stored env) (systemInfo d))))
                ''disk'')"
    using k by (simp add: final o4)
  have n: "fst c4 = fst (collector ''network'' (NetworkData []) (network_now env)
                   (map_sum id networkResult (os_networkStats env)) (network_stored env)
                   (systemInfo d))
         \<and> map_of (cache (snd c4)) ''network'' =
             map_of (cache (snd (collector ''network'' (NetworkData []) (network_now env)
                   (map_sum id networkResult (os_networkStats env)) (network_stored env)
                   (systemInfo d))))
               ''network''"
    unfolding c4_def by (rule collector_own_key) (simp_all add: o1 o2 o3 t3)
  show "networkInfo (fst (updateDisplay env d)) =
           projr (fst (collector ''network'' (NetworkData []) (network_now env)
                   (map_sum id networkResult (os_networkStats env)) (network_stored env)
                   (systemInfo d)))"
    using n by (simp add: u)
  show "map_of (cache (systemInfo (snd (updateDisplay env d)))) ''network'' =
           swept (sweep_now env) (cacheTimeout (systemInfo d))
             (map_of (cache (snd (collector ''network'' (NetworkData []) (network_now env)
                   (map_sum id networkResult (os_networkStats env)) (network_stored env)
                   (systemInfo d))))
                ''network'')"
    using n by (simp add: final)
qed

lemma cpu_answer_rejected:
  "\<exists>e'. cpu_answer (Inl e) q = Inl e'" "\<exists>e'. cpu_answer p (Inl e) = Inl e'"
  by (simp_all add: cpu_answer_def split: sum.split)

lemma failed_query_result:
  assumes dist: "distinct (map fst (cache (systemInfo d)))"
    and miss: "fst (readCache (cache_key q) (read_time q env) (systemInfo d)) = None"
  shows "result_for (cache_key q) (fst (updateDisplay (rejecting q e env) d)) = Some (safe_reading q)
       \<and> map_of (cache (systemInfo (snd (updateDisplay (rejecting q e env) d)))) (cache_key q) = None"
proof (cases q)
  case CurrentLoad
  obtain e' where "cpu_answer (Inl e) (os_cpu env) = Inl e'"
    using cpu_answer_rejected(1) by blast
  with miss show ?thesis
    by (simp add: CurrentLoad result_for_def cycle_own [OF dist] collector_miss_fails
          readCache_miss_absent swept_def)
next
  case Cpu
  obtain e' where "cpu_answer (os_currentLoad env) (Inl e) = Inl e'"
    using cpu_answer_rejected(2) by blast
  with miss show ?thesis
    by (simp add: Cpu result_for_def cycle_own [OF dist] collector_miss_fails
          readCache_miss_absent swept_def)
next
  case Mem
  with miss show ?thesis
    by (simp add: result_for_def cycle_own [OF dist] collector_miss_fails
          readCache_miss_absent swept_def)
next
  case FsSize
  with miss show ?thesis
    by (simp add: result_for_def cycle_own [OF dist] collector_miss_fails
          readCache_miss_absent swept_def)
next
  case NetworkStats
  with miss show ?thesis
    by (simp add: result_for_def cycle_own [OF dist] collector_miss_fails
          readCache_miss_absent swept_def)
qed

lemma failed_query_others:
  assumes dist: "distinct (map fst (cache (systemInfo d)))"
  shows "(\<forall>k. k \<noteq> cache_key q \<longrightarrow>
            result_for k (fst (updateDisplay (rejecting q e env) d)) =
            result_for k (fst (updateDisplay env d)))
       \<and> (\<forall>k. k \<noteq> cache_key q \<longrightarrow>
            map_of (cache (systemInfo (snd (updateDisplay (rejecting q e env) d)))) k =
            map_of (cache (systemInfo (snd (updateDisplay env d)))) k)"
  using cycle_agree [OF dist, of "cache_key q" "rejecting q e env" env]
  by (cases q) simp_all

text \<open>
  C2, as stated, fails: in a cycle whose disk query is rejected, the disk result is
  the empty list, not \<^verbatim>\<open>null\<close>, and no error reaches the error handler (its
  log stays empty): the collector has already replaced the failure by its safe
  default.
\<close>

theorem disk_failure_counterexample:
  "os_fsSize disk_failing_env = Inl permission_denied
   \<and> diskInfo (fst (updateDisplay disk_failing_env (new_CompleteDashboard 0))) = DiskData []
   \<and> errorLog (errorHandler (snd (updateDisplay disk_failing_env (new_CompleteDashboard 0)))) = []"
proof -
  have dist: "distinct (map fst (cache (systemInfo (new_CompleteDashboard 0))))"
    by (simp add: new_CompleteDashboard_def new_SystemInfo_def)
  have miss: "fst (readCache ''disk'' 0 new_SystemInfo) = None"
    by (simp add: readCache_eq new_SystemInfo_def)
  have "diskInfo (fst (updateDisplay disk_failing_env (new_CompleteDashboard 0))) =
          projr (fst (collector ''disk'' (DiskData []) (disk_now disk_failing_env)
                   (map_sum id diskResult (os_fsSize disk_failing_env))
                   (disk_stored disk_failing_env) (systemInfo (new_CompleteDashboard 0))))"
    by (rule cycle_own(5) [OF dist])
  also have "\<dots> = DiskData []"
    using miss
    by (simp add: disk_failing_env_def example_env_def new_CompleteDashboard_def
          collector_miss_fails)
  finally have "diskInfo (fst (updateDisplay disk_failing_env (new_CompleteDashboard 0))) = DiskData []" .
  then show ?thesis
    by (simp add: updateDisplay_frame) (simp add: disk_failing_env_def new_CompleteDashboard_def
          new_ErrorHandler_def)
qed

lemma updateDisplay_never_null:
  "cpuInfo (fst (updateDisplay env d)) \<noteq> None"
  "memoryInfo (fst (updateDisplay env d)) \<noteq> None"
  by (simp_all add: updateDisplay_eq Let_def)

text \<open>
  C2, amended. Take a cycle, one of its OS queries, and the same cycle with that
  query rejected, where the cache read of the query's source misses. The cycle with
  the rejection still yields four results, none of them \<^verbatim>\<open>null\<close>: the
  failing source's result is its safe default; every other source's result is the
  same as in the cycle without the rejection; the error handler is unchanged (no
  error is recorded); and afterwards the cache has no entry for the failing source
  and, under every other key, the same entry as after the cycle without the
  rejection.
\<close>

theorem failed_source_isolated:
  assumes "distinct (map fst (cache (systemInfo d)))"
    and "fst (readCache (cache_key q) (read_time q env) (systemInfo d)) = None"
  shows "result_for (cache_key q) (fst (updateDisplay (rejecting q e env) d)) = Some (safe_reading q)
     \<and> (\<forall>k. k \<noteq> cache_key q \<longrightarrow>
           result_for k (fst (updateDisplay (rejecting q e env) d)) =
           result_for k (fst (updateDisplay env d)))
     \<and> cpuInfo (fst (updateDisplay (rejecting q e env) d)) \<noteq> None
     \<and> memoryInfo (fst (updateDisplay (rejecting q e env) d)) \<noteq> None
     \<and> errorHandler (snd (updateDisplay (rejecting q e env) d)) = errorHandler d
     \<and> map_of (cache (systemInfo (snd (updateDisplay (rejecting q e env) d)))) (cache_key q) = None
     \<and> (\<forall>k. k \<noteq> cache_key q \<longrightarrow>
           map_of (cache (systemInfo (snd (updateDisplay (rejecting q e env) d)))) k =
           map_of (cache (systemInfo (snd (updateDisplay env d)))) k)"
  using failed_query_result [OF assms, of e] failed_query_others [OF assms(1), of q e env]
  by (simp add: updateDisplay_frame updateDisplay_never_null)

theorem failed_source_isolated_witness:
  "distinct (map fst (cache (systemInfo (new_CompleteDashboard 0))))
   \<and> fst (readCache (cache_key FsSize) (read_time FsSize example_env)
            (systemInfo (new_CompleteDashboard 0))) = None
   \<and> rejecting FsSize permission_denied example_env = disk_failing_env
   \<and> diskInfo (fst (updateDisplay disk_failing_env (new_CompleteDashboard 0))) = DiskData []
   \<and> cpuInfo (fst (updateDisplay disk_failing_env (new_CompleteDashboard 0)))
       = cpuInfo (fst (updateDisplay example_env (new_CompleteDashboard 0)))
   \<and> cpuInfo (fst (updateDisplay example_env (new_CompleteDashboard 0)))
       = Some (cpuResult \<lparr>currentLoad = 12.5, cpus = [\<lparr>core_load = 10\<rparr>, \<lparr>core_load = 15\<rparr>]\<rparr>
                 \<lparr>cpu_model = ''Example CPU'', cpu_speed = 2.4\<rparr>)
   \<and> memoryInfo (fst (updateDisplay disk_failing_env (new_CompleteDashboard 0)))
       = memoryInfo (fst (updateDisplay example_env (new_CompleteDashboard 0)))
   \<and> networkInfo (fst (updateDisplay disk_failing_env (new_CompleteDashboard 0)))
       = networkInfo (fst (updateDisplay example_env (new_CompleteDashboard 0)))
   \<and> errorHandler (snd (updateDisplay disk_failing_env (new_CompleteDashboard 0))) = new_ErrorHandler
   \<and> map_of (cache (systemInfo (snd (updateDisplay disk_failing_env (new_CompleteDashboard 0)))))
        ''disk'' = None
   \<and> map_of (cache (systemInfo (snd (updateDisplay disk_failing_env (new_CompleteDashboard 0)))))
        ''cpu''
       = map_of (cache (systemInfo (snd (updateDisplay example_env (new_CompleteDashboard 0)))))
           ''cpu''"
proof -
  have dist: "distinct (map fst (cache (systemInfo (new_CompleteDashboard 0))))"
    by (simp add: new_CompleteDashboard_def new_SystemInfo_def)
  have miss: "fst (readCache (cache_key FsSize) (read_time FsSize example_env)
            (systemInfo (new_CompleteDashboard 0))) = None"
    by (simp add: readCache_eq new_CompleteDashboard_def new_SystemInfo_def)
  have env: "rejecting FsSize permission_denied example_env = disk_failing_env"
    by (simp add: disk_failing_env_def)
  have cpu_miss: "fst (readCache ''cpu'' 0 new_SystemInfo) = None"
    by (simp add: readCache_eq new_SystemInfo_def)
  have "cpuInfo (fst (updateDisplay example_env (new_CompleteDashboard 0))) =
          Some (projr (fst (collector ''cpu'' safe_cpu (cpu_now example_env)
                   (cpu_answer (os_currentLoad example_env) (os_cpu example_env))
                   (cpu_stored example_env) (systemInfo (new_CompleteDashboard 0)))))"
    by (rule cycle_own(1) [OF dist])
  also have "\<dots> = Some (cpuResult \<lparr>currentLoad = 12.5, cpus = [\<lparr>core_load = 10\<rparr>, \<lparr>core_load = 15\<rparr>]\<rparr>
                 \<lparr>cpu_model = ''Example CPU'', cpu_speed = 2.4\<rparr>)"
    using cpu_miss
    by (simp add: example_env_def new_CompleteDashboard_def cpu_answer_def
          collector_miss_succeeds)
  finally have cpu: "cpuInfo (fst (updateDisplay example_env (new_CompleteDashboard 0)))
       = Some (cpuResult \<lparr>currentLoad = 12.5, cpus = [\<lparr>core_load = 10\<rparr>, \<lparr>core_load = 15\<rparr>]\<rparr>
                 \<lparr>cpu_model = ''Example CPU'', cpu_speed = 2.4\<rparr>)" .
  have eh: "errorHandler (new_CompleteDashboard 0) = new_ErrorHandler"
    by (simp add: new_CompleteDashboard_def)
  note isolated = failed_source_isolated [OF dist miss, of permission_denied, unfolded env]
  have own: "result_for ''disk'' (fst (updateDisplay disk_failing_env (new_CompleteDashboard 0)))
               = Some (DiskData [])"
    using isolated by simp
  have others: "result_for k (fst (updateDisplay disk_failing_env (new_CompleteDashboard 0)))
                  = result_for k (fst (updateDisplay example_env (new_CompleteDashboard 0)))"
    if "k \<noteq> ''disk''" for k
    using isolated that by simp
  have handler: "errorHandler (snd (updateDisplay disk_failing_env (new_CompleteDashboard 0)))
                   = new_ErrorHandler"
    using isolated by (simp add: eh)
  have gone: "map_of (cache (systemInfo (snd (updateDisplay disk_failing_env
                (new_CompleteDashboard 0))))) ''disk'' = None"
    using isolated by simp
  have kept: "map_of (cache (systemInfo (snd (updateDisplay disk_failing_env
                (new_CompleteDashboard 0))))) k
              = map_of (cache (systemInfo (snd (updateDisplay example_env
                  (new_CompleteDashboard 0))))) k"
    if "k \<noteq> ''disk''" for k
    using isolated that by simp
  show ?thesis
    using dist miss env cpu own others [of "''cpu''"] others [of "''memory''"]
      others [of "''network''"] handler gone kept [of "''cpu''"]
    by (simp add: result_for_def)
qed

end
